theory Spec2Isabelle
  imports
    Main
    "HOL-Library.Multiset"
    "HOL-Library.Char_ord"
    "HOL-Library.List_Lexorder"
    "HOL-Library.Product_Lexorder"
begin

section \<open>Data model (types/index.ts as used by the services)\<close>

text \<open>
  The TypeScript sources are embedded with explicit state passing. A database handle is
  the value of its three tables; every method that writes returns the new tables. A
  rejected promise (a thrown \<open>Error\<close>) is the \<open>Inl\<close> branch of a sum. The values the
  environment supplies (\<open>uuidv4()\<close>, \<open>new Date()\<close>, the outcome of \<open>axios.post\<close>) are
  arguments, in the order the source asks for them; within one call every clock reading
  is the same instant \<open>now\<close>.

  A point in time is its epoch value in milliseconds (\<open>getTime()\<close>). Only the
  \<open>sync_queue.created_at\<close> column keeps the value that was bound, because the drain
  query orders by it: a \<open>Date\<close> object is bound as a number (\<open>AsDate\<close>, its epoch
  value), the result of \<open>toISOString()\<close> as that text (\<open>AsIso\<close>). The text is
  supplied like the clock reading it prints: it is the argument \<open>iso_text\<close> of
  \<open>SyncService.addToSyncQueue\<close> and of the route handlers that call it.

  Record fields keep the source's names behind a prefix per type: \<open>t_\<close> for \<open>Task\<close>
  and the rows of \<open>tasks\<close>, \<open>p_\<close> for \<open>Partial<Task>\<close>, \<open>q_\<close> for
  \<open>SyncQueueItem\<close> and the rows of \<open>sync_queue\<close>, \<open>d_\<close> for the rows of
  \<open>dead_letter_queue\<close>, \<open>res_\<close> for a per-item result of the authority, \<open>e_\<close> for
  \<open>SyncError\<close>. The two \<open>Database\<close> methods whose names the services reuse are
  \<open>db_updateTask\<close> and \<open>db_addToSyncQueue\<close>. Columns that no code reads
  (\<open>sync_queue.updated_at\<close>, \<open>dead_letter_queue.failed_at\<close>) are left out.
\<close>

datatype operation = Create | Update | Delete

datatype sync_status = TaskPending | TaskSynced | TaskError

datatype result_status = Success | Conflict | Error

datatype js_error = JsError (message: string)

datatype stamp = AsDate int | AsIso string

record task =
  t_id :: string
  t_title :: string
  t_description :: "string option"
  t_completed :: bool
  t_created_at :: int
  t_updated_at :: int
  t_is_deleted :: bool
  t_sync_status :: sync_status
  t_server_id :: "string option"
  t_last_synced_at :: "int option"

text \<open>\<open>Partial<Task>\<close>, and any task-shaped object read from JSON: a field that is
  absent (\<open>undefined\<close>) is \<open>None\<close>.\<close>

record task_partial =
  p_id :: "string option"
  p_title :: "string option"
  p_description :: "string option"
  p_completed :: "bool option"
  p_created_at :: "int option"
  p_updated_at :: "int option"
  p_is_deleted :: "bool option"
  p_sync_status :: "sync_status option"
  p_server_id :: "string option"
  p_last_synced_at :: "int option"

text \<open>\<open>SyncQueueItem\<close>. The \<open>data\<close> snapshot is modelled by the object it encodes
  (\<open>JSON.stringify\<close> on the way in, \<open>JSON.parse\<close> on the way out).\<close>

record sync_queue_item =
  q_id :: string
  q_task_id :: string
  q_operation :: operation
  q_data :: task_partial
  q_created_at :: stamp
  q_retry_count :: nat
  q_error_message :: "string option"

text \<open>A row of table \<open>sync_queue\<close>: the item's columns and \<open>status\<close>.\<close>

record queue_row = sync_queue_item +
  q_status :: string

text \<open>A row of table \<open>dead_letter_queue\<close>: there is no \<open>retry_count\<close> column.\<close>

record dead_letter_row =
  d_id :: string
  d_task_id :: string
  d_operation :: operation
  d_data :: task_partial
  d_created_at :: stamp
  d_error_message :: "string option"

record database =
  tasks :: "task list"
  sync_queue :: "queue_row list"
  dead_letter_queue :: "dead_letter_row list"

record batch_result =
  res_client_id :: string
  res_server_id :: string
  res_status :: result_status
  res_resolved_data :: "task_partial option"
  res_error :: "string option"
  res_operation :: "operation option"

record batch_sync_response =
  processed_items :: "batch_result list"

record conflict_resolution =
  strategy :: string
  resolved_task :: task_partial

record sync_error =
  e_task_id :: string
  e_operation :: string
  e_error :: string
  e_timestamp :: int

record sync_result =
  success :: bool
  synced_items :: nat
  failed_items :: nat
  errors :: "sync_error list"

section \<open>JavaScript helpers\<close>

text \<open>\<open>s || d\<close> on an optional string: \<open>d\<close> when \<open>s\<close> is undefined or empty.\<close>

definition js_or :: "string option \<Rightarrow> string \<Rightarrow> string" where
  "js_or s d = (case s of None \<Rightarrow> d | Some v \<Rightarrow> if v = [] then d else v)"

definition op_name :: "operation \<Rightarrow> string" where
  "op_name op = (case op of Create \<Rightarrow> ''create'' | Update \<Rightarrow> ''update'' | Delete \<Rightarrow> ''delete'')"

text \<open>A full \<open>Task\<close> passed where a \<open>Partial<Task>\<close> is expected.\<close>

definition to_partial :: "task \<Rightarrow> task_partial" where
  "to_partial t =
     \<lparr> p_id = Some (t_id t), p_title = Some (t_title t), p_description = t_description t,
       p_completed = Some (t_completed t), p_created_at = Some (t_created_at t),
       p_updated_at = Some (t_updated_at t), p_is_deleted = Some (t_is_deleted t),
       p_sync_status = Some (t_sync_status t), p_server_id = t_server_id t,
       p_last_synced_at = t_last_synced_at t \<rparr>"

text \<open>The empty object \<open>{}\<close>.\<close>

definition empty_partial :: task_partial where
  "empty_partial =
     \<lparr> p_id = None, p_title = None, p_description = None, p_completed = None,
       p_created_at = None, p_updated_at = None, p_is_deleted = None,
       p_sync_status = None, p_server_id = None, p_last_synced_at = None \<rparr>"

text \<open>The spread \<open>{ ...existing, ...updates }\<close>: a field present in \<open>updates\<close> wins.\<close>

definition spread :: "task \<Rightarrow> task_partial \<Rightarrow> task" where
  "spread existing updates =
     \<lparr> t_id = (case p_id updates of Some v \<Rightarrow> v | None \<Rightarrow> t_id existing),
       t_title = (case p_title updates of Some v \<Rightarrow> v | None \<Rightarrow> t_title existing),
       t_description =
         (case p_description updates of Some v \<Rightarrow> Some v | None \<Rightarrow> t_description existing),
       t_completed = (case p_completed updates of Some v \<Rightarrow> v | None \<Rightarrow> t_completed existing),
       t_created_at = (case p_created_at updates of Some v \<Rightarrow> v | None \<Rightarrow> t_created_at existing),
       t_updated_at = (case p_updated_at updates of Some v \<Rightarrow> v | None \<Rightarrow> t_updated_at existing),
       t_is_deleted = (case p_is_deleted updates of Some v \<Rightarrow> v | None \<Rightarrow> t_is_deleted existing),
       t_sync_status =
         (case p_sync_status updates of Some v \<Rightarrow> v | None \<Rightarrow> t_sync_status existing),
       t_server_id =
         (case p_server_id updates of Some v \<Rightarrow> Some v | None \<Rightarrow> t_server_id existing),
       t_last_synced_at =
         (case p_last_synced_at updates of Some v \<Rightarrow> Some v | None \<Rightarrow> t_last_synced_at existing) \<rparr>"

section \<open>Database (db/database.ts)\<close>

definition empty_database :: database where
  "empty_database = \<lparr> tasks = [], sync_queue = [], dead_letter_queue = [] \<rparr>"

text \<open>\<open>insertTask\<close>: the INSERT is rejected when the primary key exists.\<close>

definition insertTask :: "database \<Rightarrow> task \<Rightarrow> js_error + database" where
  "insertTask db t =
     (if t_id t \<in> set (map t_id (tasks db))
      then Inl (JsError ''SQLITE_CONSTRAINT: UNIQUE constraint failed: tasks.id'')
      else Inr (db\<lparr> tasks := tasks db @ [t] \<rparr>))"

text \<open>\<open>updateTask\<close>: \<open>UPDATE tasks SET ... WHERE id = ?\<close> with the defaults the
  method binds. No row matches an absent id; \<open>title\<close> is \<open>NOT NULL\<close>, which is
  checked only when a row is written.\<close>

definition updateTask_row :: "task_partial \<Rightarrow> string \<Rightarrow> int \<Rightarrow> task \<Rightarrow> task" where
  "updateTask_row p title now row =
     row\<lparr> t_title := title,
          t_description := p_description p,
          t_completed := (p_completed p = Some True),
          t_updated_at := (case p_updated_at p of Some u \<Rightarrow> u | None \<Rightarrow> now),
          t_is_deleted := (p_is_deleted p = Some True),
          t_sync_status := (case p_sync_status p of Some s \<Rightarrow> s | None \<Rightarrow> TaskPending),
          t_server_id := p_server_id p,
          t_last_synced_at := p_last_synced_at p \<rparr>"

definition db_updateTask :: "database \<Rightarrow> task_partial \<Rightarrow> int \<Rightarrow> js_error + database" where
  "db_updateTask db p now =
     (case p_id p of
        None \<Rightarrow> Inr db
      | Some i \<Rightarrow>
          if i \<in> set (map t_id (tasks db)) then
            (case p_title p of
               None \<Rightarrow> Inl (JsError ''SQLITE_CONSTRAINT: NOT NULL constraint failed: tasks.title'')
             | Some title \<Rightarrow>
                 Inr (db\<lparr> tasks :=
                   map (\<lambda>row. if t_id row = i then updateTask_row p title now row else row)
                     (tasks db) \<rparr>))
          else Inr db)"

definition getTaskById :: "database \<Rightarrow> string \<Rightarrow> task option" where
  "getTaskById db i = find (\<lambda>row. t_id row = i) (tasks db)"

definition getAllTasks :: "database \<Rightarrow> task list" where
  "getAllTasks db = filter (\<lambda>row. \<not> t_is_deleted row) (tasks db)"

text \<open>\<open>Database.addToSyncQueue\<close>: the INSERT names no \<open>status\<close>, so the column takes
  its default \<open>'pending'\<close>.\<close>

definition insert_queue_row :: "database \<Rightarrow> queue_row \<Rightarrow> js_error + database" where
  "insert_queue_row db row =
     (if q_id row \<in> set (map q_id (sync_queue db))
      then Inl (JsError ''SQLITE_CONSTRAINT: UNIQUE constraint failed: sync_queue.id'')
      else Inr (db\<lparr> sync_queue := sync_queue db @ [row] \<rparr>))"

definition db_addToSyncQueue :: "database \<Rightarrow> sync_queue_item \<Rightarrow> js_error + database" where
  "db_addToSyncQueue db item =
     insert_queue_row db
       \<lparr> q_id = q_id item, q_task_id = q_task_id item, q_operation = q_operation item,
         q_data = q_data item, q_created_at = q_created_at item,
         q_retry_count = q_retry_count item, q_error_message = q_error_message item,
         q_status = ''pending'' \<rparr>"

text \<open>A row read back as a \<open>SyncQueueItem\<close> (\<open>getSyncQueue\<close>, and the cast of the
  drain query's rows).\<close>

definition as_item :: "queue_row \<Rightarrow> sync_queue_item" where
  "as_item row =
     \<lparr> q_id = q_id row, q_task_id = q_task_id row, q_operation = q_operation row,
       q_data = q_data row, q_created_at = q_created_at row,
       q_retry_count = q_retry_count row, q_error_message = q_error_message row \<rparr>"

definition getSyncQueue :: "database \<Rightarrow> sync_queue_item list" where
  "getSyncQueue db = map as_item (sync_queue db)"

definition clearSyncQueue :: "database \<Rightarrow> database" where
  "clearSyncQueue db = db\<lparr> sync_queue := [] \<rparr>"

definition addToDeadLetterQueue :: "database \<Rightarrow> sync_queue_item \<Rightarrow> js_error + database" where
  "addToDeadLetterQueue db item =
     (if q_id item \<in> set (map d_id (dead_letter_queue db))
      then Inl (JsError ''SQLITE_CONSTRAINT: UNIQUE constraint failed: dead_letter_queue.id'')
      else Inr (db\<lparr> dead_letter_queue := dead_letter_queue db @
             [\<lparr> d_id = q_id item, d_task_id = q_task_id item, d_operation = q_operation item,
                d_data = q_data item, d_created_at = q_created_at item,
                d_error_message = q_error_message item \<rparr>] \<rparr>))"

definition getDeadLetterQueue :: "database \<Rightarrow> sync_queue_item list" where
  "getDeadLetterQueue db =
     map (\<lambda>row.
        \<lparr> q_id = d_id row, q_task_id = d_task_id row, q_operation = d_operation row,
          q_data = d_data row, q_created_at = d_created_at row,
          q_retry_count = 3, q_error_message = d_error_message row \<rparr>)
       (dead_letter_queue db)"

section \<open>TaskService (services/taskService.ts)\<close>

text \<open>A method that awaits several statements returns its outcome together with the
  database as the statements already run have left it.\<close>

definition createTask ::
  "database \<Rightarrow> task_partial \<Rightarrow> string \<Rightarrow> string \<Rightarrow> int \<Rightarrow> (js_error + task) \<times> database" where
  "createTask db data uuid1 uuid2 now =
     (let t = \<lparr> t_id = (case p_id data of Some i \<Rightarrow> i | None \<Rightarrow> uuid1),
                t_title = (case p_title data of Some s \<Rightarrow> s | None \<Rightarrow> ''Untitled Task''),
                t_description = p_description data,
                t_completed = (case p_completed data of Some c \<Rightarrow> c | None \<Rightarrow> False),
                t_created_at = now, t_updated_at = now, t_is_deleted = False,
                t_sync_status = TaskPending, t_server_id = None, t_last_synced_at = None \<rparr>
      in case insertTask db t of
           Inl e \<Rightarrow> (Inl e, db)
         | Inr db1 \<Rightarrow>
             (case db_addToSyncQueue db1
                     \<lparr> q_id = uuid2, q_task_id = t_id t, q_operation = Create,
                       q_data = to_partial t, q_created_at = AsDate now,
                       q_retry_count = 0, q_error_message = None \<rparr> of
                Inl e \<Rightarrow> (Inl e, db1)
              | Inr db2 \<Rightarrow> (Inr t, db2)))"

definition updateTask ::
  "database \<Rightarrow> string \<Rightarrow> task_partial \<Rightarrow> string \<Rightarrow> int \<Rightarrow> (js_error + task option) \<times> database" where
  "updateTask db i updates uuid now =
     (case getTaskById db i of
        None \<Rightarrow> (Inr None, db)
      | Some existing \<Rightarrow>
          (let updated = (spread existing updates)
                           \<lparr> t_updated_at := now, t_sync_status := TaskPending \<rparr>
           in case db_updateTask db (to_partial updated) now of
                Inl e \<Rightarrow> (Inl e, db)
              | Inr db1 \<Rightarrow>
                  (case db_addToSyncQueue db1
                          \<lparr> q_id = uuid, q_task_id = t_id updated, q_operation = Update,
                            q_data = to_partial updated, q_created_at = AsDate now,
                            q_retry_count = 0, q_error_message = None \<rparr> of
                     Inl e \<Rightarrow> (Inl e, db1)
                   | Inr db2 \<Rightarrow> (Inr (Some updated), db2))))"

definition deleteTask ::
  "database \<Rightarrow> string \<Rightarrow> string \<Rightarrow> int \<Rightarrow> (js_error + bool) \<times> database" where
  "deleteTask db i uuid now =
     (case getTaskById db i of
        None \<Rightarrow> (Inr False, db)
      | Some existing \<Rightarrow>
          (let deleted = existing\<lparr> t_is_deleted := True, t_updated_at := now,
                                   t_sync_status := TaskPending \<rparr>
           in case db_updateTask db (to_partial deleted) now of
                Inl e \<Rightarrow> (Inl e, db)
              | Inr db1 \<Rightarrow>
                  (case db_addToSyncQueue db1
                          \<lparr> q_id = uuid, q_task_id = t_id deleted, q_operation = Delete,
                            q_data = to_partial deleted, q_created_at = AsDate now,
                            q_retry_count = 0, q_error_message = None \<rparr> of
                     Inl e \<Rightarrow> (Inl e, db1)
                   | Inr db2 \<Rightarrow> (Inr True, db2))))"

definition getTask :: "database \<Rightarrow> string \<Rightarrow> task option" where
  "getTask db i =
     (case getTaskById db i of
        None \<Rightarrow> None
      | Some t \<Rightarrow> if t_is_deleted t then None else Some t)"

definition getTasksNeedingSync :: "database \<Rightarrow> task list" where
  "getTasksNeedingSync db =
     filter (\<lambda>t. t_sync_status t = TaskPending \<or> t_sync_status t = TaskError) (getAllTasks db)"

definition updateTaskAfterSync ::
  "database \<Rightarrow> string \<Rightarrow> string \<Rightarrow> int \<Rightarrow> js_error + database" where
  "updateTaskAfterSync db taskId serverId now =
     (case getTaskById db taskId of
        None \<Rightarrow> Inr db
      | Some t \<Rightarrow>
          db_updateTask db
            (to_partial (t\<lparr> t_server_id := Some serverId, t_sync_status := TaskSynced,
                            t_last_synced_at := Some now \<rparr>)) now)"

definition saveResolvedTask :: "database \<Rightarrow> task_partial \<Rightarrow> int \<Rightarrow> js_error + database" where
  "saveResolvedTask db resolvedTask now =
     db_updateTask db
       (resolvedTask\<lparr> p_sync_status := Some TaskSynced, p_last_synced_at := Some now \<rparr>) now"

section \<open>SyncService (services/syncService.ts)\<close>

text \<open>\<open>SyncService.addToSyncQueue\<close>: binds \<open>created_at.toISOString()\<close>, the text
  \<open>iso_text\<close>, and the status \<open>'pending'\<close>.\<close>

definition addToSyncQueue ::
  "database \<Rightarrow> string \<Rightarrow> operation \<Rightarrow> task_partial \<Rightarrow> string \<Rightarrow> string \<Rightarrow> js_error + database" where
  "addToSyncQueue db taskId op data uuid iso_text =
     insert_queue_row db
       \<lparr> q_id = uuid, q_task_id = taskId, q_operation = op, q_data = data,
         q_created_at = AsIso iso_text, q_retry_count = 0, q_error_message = None,
         q_status = ''pending'' \<rparr>"

definition maxRetries :: nat where
  "maxRetries = 3"

definition handleSyncError :: "database \<Rightarrow> sync_queue_item \<Rightarrow> js_error \<Rightarrow> js_error + database" where
  "handleSyncError db item err =
     (let newRetryCount = q_retry_count item + 1 in
      if newRetryCount \<ge> maxRetries then
        (case addToDeadLetterQueue db
                (item\<lparr> q_error_message := Some (message err),
                       q_retry_count := newRetryCount \<rparr>) of
           Inl e \<Rightarrow> Inl e
         | Inr db1 \<Rightarrow>
             Inr (db1\<lparr> sync_queue := filter (\<lambda>row. q_id row \<noteq> q_id item) (sync_queue db1) \<rparr>))
      else
        Inr (db\<lparr> sync_queue :=
          map (\<lambda>row. if q_id row = q_id item
                      then row\<lparr> q_retry_count := newRetryCount,
                               q_error_message := Some (message err),
                               q_status := ''pending'' \<rparr>
                      else row)
            (sync_queue db) \<rparr>))"

text \<open>\<open>new Date(x).getTime()\<close> is the instant, or NaN (\<open>None\<close>) when \<open>x\<close> is
  undefined; \<open>a > b\<close> is false as soon as one side is NaN.\<close>

definition js_gt :: "int option \<Rightarrow> int option \<Rightarrow> bool" where
  "js_gt a b = (case a of None \<Rightarrow> False | Some x \<Rightarrow> (case b of None \<Rightarrow> False | Some y \<Rightarrow> x > y))"

definition resolveConflict ::
  "task_partial \<Rightarrow> task_partial \<Rightarrow> operation \<Rightarrow> operation \<Rightarrow> conflict_resolution" where
  "resolveConflict localTask serverTask localOp serverOp =
     (let localUpdated = p_updated_at localTask; serverUpdated = p_updated_at serverTask in
      if js_gt localUpdated serverUpdated then
        \<lparr> strategy = ''last-write-wins'', resolved_task = localTask \<rparr>
      else if js_gt serverUpdated localUpdated then
        \<lparr> strategy = ''last-write-wins'', resolved_task = serverTask \<rparr>
      else
        \<lparr> strategy = ''last-write-wins'', resolved_task = serverTask \<rparr>)"

text \<open>The two UPDATE statements that mark a row synced.\<close>

definition mark_synced_clear :: "database \<Rightarrow> string \<Rightarrow> database" where
  "mark_synced_clear db i =
     db\<lparr> sync_queue :=
       map (\<lambda>row. if q_id row = i
                   then row\<lparr> q_status := ''synced'', q_error_message := None \<rparr> else row)
         (sync_queue db) \<rparr>"

definition mark_synced :: "database \<Rightarrow> string \<Rightarrow> database" where
  "mark_synced db i =
     db\<lparr> sync_queue :=
       map (\<lambda>row. if q_id row = i then row\<lparr> q_status := ''synced'' \<rparr> else row)
         (sync_queue db) \<rparr>"

text \<open>The body of the loop of \<open>processBatch\<close> for one result whose queue item was found.\<close>

definition apply_result ::
  "database \<Rightarrow> sync_queue_item \<Rightarrow> batch_result \<Rightarrow> int \<Rightarrow> js_error + database" where
  "apply_result db item r now =
     (if res_status r = Success then
        updateTaskAfterSync (mark_synced_clear db (q_id item)) (q_task_id item) (res_server_id r) now
      else if res_status r = Conflict \<and> res_resolved_data r \<noteq> None then
        (case res_resolved_data r of
           None \<Rightarrow> Inr db
         | Some serverTask \<Rightarrow>
             (let resolution =
                    resolveConflict (q_data item) serverTask (q_operation item)
                      (case res_operation r of Some op \<Rightarrow> op | None \<Rightarrow> Update)
              in case saveResolvedTask db (resolved_task resolution) now of
                   Inl e \<Rightarrow> Inl e
                 | Inr db1 \<Rightarrow> Inr (mark_synced db1 (q_id item))))
      else handleSyncError db item (JsError (js_or (res_error r) ''Unknown error'')))"

text \<open>The loop of \<open>processBatch\<close> over \<open>response.data.processed_items\<close>. A statement
  that throws ends the loop; what earlier iterations wrote stays written.\<close>

fun apply_results ::
  "database \<Rightarrow> sync_queue_item list \<Rightarrow> batch_result list \<Rightarrow> int \<Rightarrow> js_error option \<times> database" where
  "apply_results db items [] now = (None, db)"
| "apply_results db items (r # rs) now =
     (case find (\<lambda>i. q_id i = res_client_id r) items of
        None \<Rightarrow> apply_results db items rs now
      | Some item \<Rightarrow>
          (case apply_result db item r now of
             Inl e \<Rightarrow> (Some e, db)
           | Inr db1 \<Rightarrow> apply_results db1 items rs now))"

text \<open>\<open>processBatch\<close>. The argument \<open>posted\<close> is what \<open>axios.post\<close> settles to: \<open>Inl\<close>
  when the promise rejects (no response, or a response outside 2xx such as the
  authority's 400 "Checksum mismatch"), \<open>Inr\<close> with the response body otherwise.\<close>

definition processBatch ::
  "database \<Rightarrow> sync_queue_item list \<Rightarrow> js_error + batch_sync_response \<Rightarrow> int
     \<Rightarrow> (js_error + batch_sync_response) \<times> database" where
  "processBatch db items posted now =
     (case posted of
        Inl e \<Rightarrow> (Inl e, db)
      | Inr response \<Rightarrow>
          (case apply_results db items (processed_items response) now of
             (Some e, db1) \<Rightarrow> (Inl e, db1)
           | (None, db1) \<Rightarrow> (Inr response, db1)))"

text \<open>The drain query of \<open>sync\<close>:
  \<open>SELECT * FROM sync_queue WHERE status = 'pending' ORDER BY task_id, created_at ASC\<close>.
  Stored values order with every number before every text, numbers by value and
  texts byte by byte, as the ids do.\<close>

definition stamp_key :: "stamp \<Rightarrow> nat \<times> int \<times> string" where
  "stamp_key s = (case s of AsDate t \<Rightarrow> (0, t, []) | AsIso txt \<Rightarrow> (1, 0, txt))"

definition order_key :: "queue_row \<Rightarrow> string \<times> nat \<times> int \<times> string" where
  "order_key row = (q_task_id row, stamp_key (q_created_at row))"

definition pending_rows :: "database \<Rightarrow> queue_row list" where
  "pending_rows db = filter (\<lambda>row. q_status row = ''pending'') (sync_queue db)"

definition drain :: "database \<Rightarrow> sync_queue_item list" where
  "drain db = map as_item (sort_key order_key (pending_rows db))"

definition sync ::
  "database \<Rightarrow> js_error + batch_sync_response \<Rightarrow> int \<Rightarrow> sync_result \<times> database" where
  "sync db posted now =
     (let pendingItems = drain db in
      if length pendingItems = 0 then
        (\<lparr> success = True, synced_items = 0, failed_items = 0, errors = [] \<rparr>, db)
      else
        (case processBatch db pendingItems posted now of
           (Inr batchResponse, db1) \<Rightarrow>
             (\<lparr> success = True,
                synced_items =
                  length (filter (\<lambda>r. res_status r = Success) (processed_items batchResponse)),
                failed_items =
                  length (filter (\<lambda>r. res_status r = Error) (processed_items batchResponse)),
                errors =
                  map (\<lambda>r. \<lparr> e_task_id = res_client_id r,
                              e_operation =
                                (case find (\<lambda>i. q_id i = res_client_id r) pendingItems of
                                   Some i \<Rightarrow> op_name (q_operation i)
                                 | None \<Rightarrow> ''unknown''),
                              e_error = js_or (res_error r) ''Unknown error'',
                              e_timestamp = now \<rparr>)
                    (filter (\<lambda>r. res_status r = Error) (processed_items batchResponse)) \<rparr>,
              db1)
         | (Inl err, db1) \<Rightarrow>
             (\<lparr> success = False, synced_items = 0, failed_items = length pendingItems,
                errors =
                  map (\<lambda>item. \<lparr> e_task_id = q_id item,
                                 e_operation = op_name (q_operation item),
                                 e_error = message err,
                                 e_timestamp = now \<rparr>)
                    pendingItems \<rparr>,
              db1)))"

section \<open>Task routes (routes/tasks.ts)\<close>

datatype json_body = TaskJson task | NullJson | ErrorJson string | SuccessJson

record create_body =
  b_title :: "string option"
  b_description :: "string option"

text \<open>\<open>POST /\<close>. \<open>!title\<close> holds for an absent and for an empty title.\<close>

definition post_task ::
  "database \<Rightarrow> create_body \<Rightarrow> string \<Rightarrow> string \<Rightarrow> string \<Rightarrow> int \<Rightarrow> string
     \<Rightarrow> (nat \<times> json_body) \<times> database" where
  "post_task db body uuid1 uuid2 uuid3 now iso_text =
     (if js_or (b_title body) [] = [] then ((400, ErrorJson ''Title is required''), db)
      else
        (case createTask db
                (empty_partial\<lparr> p_title := b_title body,
                                p_description := Some (js_or (b_description body) []),
                                p_completed := Some False,
                                p_updated_at := Some now \<rparr>) uuid1 uuid2 now of
           (Inl e, db1) \<Rightarrow>
             ((500, ErrorJson (js_or (Some (message e)) ''Failed to create task'')), db1)
         | (Inr t, db1) \<Rightarrow>
             (case addToSyncQueue db1 (t_id t) Create (to_partial t) uuid3 iso_text of
                Inl e \<Rightarrow> ((500, ErrorJson (js_or (Some (message e)) ''Failed to create task'')), db1)
              | Inr db2 \<Rightarrow> ((201, TaskJson t), db2))))"

text \<open>\<open>PUT /:id\<close>.\<close>

definition put_task ::
  "database \<Rightarrow> string \<Rightarrow> task_partial \<Rightarrow> string \<Rightarrow> string \<Rightarrow> int \<Rightarrow> string
     \<Rightarrow> (nat \<times> json_body) \<times> database" where
  "put_task db i body uuid1 uuid2 now iso_text =
     (case getTask db i of
        None \<Rightarrow> ((404, ErrorJson ''Task not found''), db)
      | Some existing \<Rightarrow>
          (case updateTask db i (body\<lparr> p_updated_at := Some now \<rparr>) uuid1 now of
             (Inl e, db1) \<Rightarrow>
               ((500, ErrorJson (js_or (Some (message e)) ''Failed to update task'')), db1)
           | (Inr updated, db1) \<Rightarrow>
               (case addToSyncQueue db1 i Update
                       (case updated of Some u \<Rightarrow> to_partial u | None \<Rightarrow> empty_partial)
                       uuid2 iso_text of
                  Inl e \<Rightarrow>
                    ((500, ErrorJson (js_or (Some (message e)) ''Failed to update task'')), db1)
                | Inr db2 \<Rightarrow>
                    ((200, (case updated of Some u \<Rightarrow> TaskJson u | None \<Rightarrow> NullJson)), db2))))"

text \<open>\<open>DELETE /:id\<close>.\<close>

definition delete_task ::
  "database \<Rightarrow> string \<Rightarrow> string \<Rightarrow> string \<Rightarrow> int \<Rightarrow> string
     \<Rightarrow> (nat \<times> json_body) \<times> database" where
  "delete_task db i uuid1 uuid2 now iso_text =
     (case deleteTask db i uuid1 now of
        (Inl e, db1) \<Rightarrow>
          ((500, ErrorJson (js_or (Some (message e)) ''Failed to delete task'')), db1)
      | (Inr deleted, db1) \<Rightarrow>
          if \<not> deleted then ((404, ErrorJson ''Task not found''), db1)
          else
            (case addToSyncQueue db1 i Delete empty_partial uuid2 iso_text of
               Inl e \<Rightarrow>
                 ((500, ErrorJson (js_or (Some (message e)) ''Failed to delete task'')), db1)
             | Inr db2 \<Rightarrow> ((200, SuccessJson), db2)))"

section \<open>Predicates of the specification\<close>

text \<open>The rows of \<open>sync_queue\<close> whose id is \<open>k\<close>.\<close>

definition rows_with_id :: "database \<Rightarrow> string \<Rightarrow> queue_row list" where
  "rows_with_id db k = filter (\<lambda>row. q_id row = k) (sync_queue db)"

text \<open>The task with id \<open>i\<close> is stored, its \<open>sync_status\<close> is \<open>synced\<close> and its
  \<open>server_id\<close> is set.\<close>

definition task_synced :: "database \<Rightarrow> string \<Rightarrow> bool" where
  "task_synced db i =
     (case getTaskById db i of
        None \<Rightarrow> False
      | Some t \<Rightarrow> t_sync_status t = TaskSynced \<and> t_server_id t \<noteq> None)"

text \<open>The task object that the conflict branch of \<open>processBatch\<close> saves for result
  \<open>r\<close> of queue item \<open>item\<close>, when \<open>r\<close> is a conflict carrying resolved data.\<close>

definition resolved_by :: "sync_queue_item \<Rightarrow> batch_result \<Rightarrow> task_partial option" where
  "resolved_by item r =
     (if res_status r = Conflict then
        (case res_resolved_data r of
           None \<Rightarrow> None
         | Some serverTask \<Rightarrow>
             Some (resolved_task
                     (resolveConflict (q_data item) serverTask (q_operation item)
                        (case res_operation r of Some op \<Rightarrow> op | None \<Rightarrow> Update))))
      else None)"

text \<open>Result \<open>r\<close> is a resolved conflict whose saved task has id \<open>i\<close> and carries no
  \<open>server_id\<close>: saving it overwrites the \<open>server_id\<close> of task \<open>i\<close> with NULL.\<close>

definition clears_server_id :: "sync_queue_item list \<Rightarrow> string \<Rightarrow> batch_result \<Rightarrow> bool" where
  "clears_server_id items i r =
     (case find (\<lambda>item. q_id item = res_client_id r) items of
        None \<Rightarrow> False
      | Some item \<Rightarrow>
          (case resolved_by item r of
             None \<Rightarrow> False
           | Some t \<Rightarrow> p_id t = Some i \<and> p_server_id t = None))"

section \<open>Concrete states used to evaluate the model\<close>

definition example_task :: task where
  "example_task =
     \<lparr> t_id = ''t1'', t_title = ''x'', t_description = None, t_completed = False,
       t_created_at = 1000, t_updated_at = 1000, t_is_deleted = False,
       t_sync_status = TaskPending, t_server_id = None, t_last_synced_at = None \<rparr>"

definition example_row :: queue_row where
  "example_row =
     \<lparr> q_id = ''q1'', q_task_id = ''t1'', q_operation = Create,
       q_data = to_partial example_task, q_created_at = AsDate 1000,
       q_retry_count = 0, q_error_message = None, q_status = ''pending'' \<rparr>"

text \<open>One task \<open>t1\<close> and its pending create entry \<open>q1\<close>.\<close>

definition example_db :: database where
  "example_db =
     \<lparr> tasks = [example_task], sync_queue = [example_row], dead_letter_queue = [] \<rparr>"

text \<open>The authority's result for entry \<open>q1\<close>, with the given status.\<close>

definition example_result :: "result_status \<Rightarrow> batch_result" where
  "example_result st =
     \<lparr> res_client_id = ''q1'', res_server_id = ''s1'', res_status = st,
       res_resolved_data = None, res_error = None, res_operation = None \<rparr>"

definition checksum_rejection :: "js_error + batch_sync_response" where
  "checksum_rejection = Inl (JsError ''Request failed with status code 400'')"

definition older_task :: task_partial where
  "older_task = empty_partial\<lparr> p_title := Some ''a'', p_updated_at := Some 1 \<rparr>"

definition newer_task :: task_partial where
  "newer_task = empty_partial\<lparr> p_title := Some ''b'', p_updated_at := Some 2 \<rparr>"

text \<open>Same instant as \<open>older_task\<close>, another title.\<close>

definition tied_task :: task_partial where
  "tied_task = empty_partial\<lparr> p_title := Some ''c'', p_updated_at := Some 1 \<rparr>"

text \<open>Task \<open>t1\<close> already soft-deleted, and an empty queue.\<close>

definition deleted_db :: database where
  "deleted_db =
     \<lparr> tasks = [example_task\<lparr> t_is_deleted := True \<rparr>], sync_queue = [],
       dead_letter_queue = [] \<rparr>"

text \<open>What \<open>toISOString()\<close> prints for the instants 1000, 2000 and 5000.\<close>

definition iso_1000 :: string where
  "iso_1000 = ''1970-01-01T00:00:01.000Z''"

definition iso_2000 :: string where
  "iso_2000 = ''1970-01-01T00:00:02.000Z''"

definition iso_5000 :: string where
  "iso_5000 = ''1970-01-01T00:00:05.000Z''"

text \<open>The body of \<open>POST /\<close> with title \<open>x\<close> and no description.\<close>

definition create_request :: create_body where
  "create_request = \<lparr> b_title = Some ''x'', b_description = None \<rparr>"

text \<open>The database after \<open>POST /\<close> at instant 1000 on the empty database, and after a
  following \<open>PUT /t1\<close> at instant 2000.\<close>

definition created_db :: database where
  "created_db = snd (post_task empty_database create_request ''t1'' ''q1'' ''q2'' 1000 iso_1000)"

definition updated_db :: database where
  "updated_db =
     snd (put_task created_db ''t1'' (empty_partial\<lparr> p_title := Some ''y'' \<rparr>)
            ''q3'' ''q4'' 2000 iso_2000)"

text \<open>Two tasks \<open>t1\<close>, \<open>t2\<close> with one pending entry each (\<open>q1\<close>, \<open>q2\<close>).\<close>

definition mixed_db :: database where
  "mixed_db =
     \<lparr> tasks = [example_task, example_task\<lparr> t_id := ''t2'' \<rparr>],
       sync_queue = [example_row,
                     example_row\<lparr> q_id := ''q2'', q_task_id := ''t2'', q_operation := Update \<rparr>],
       dead_letter_queue = [] \<rparr>"

text \<open>The authority's conflict result for entry \<open>q2\<close>, carrying the given task.\<close>

definition conflict_result :: "task_partial \<Rightarrow> batch_result" where
  "conflict_result serverTask =
     \<lparr> res_client_id = ''q2'', res_server_id = ''s2'', res_status = Conflict,
       res_resolved_data = Some serverTask, res_error = None, res_operation = None \<rparr>"

definition remote_t2 :: task_partial where
  "remote_t2 = to_partial (example_task\<lparr> t_id := ''t2'', t_title := ''remote'',
                               t_updated_at := 5000, t_server_id := Some ''s2'' \<rparr>)"

definition remote_t1_without_server_id :: task_partial where
  "remote_t1_without_server_id =
     to_partial (example_task\<lparr> t_title := ''remote'', t_updated_at := 5000 \<rparr>)"

definition untitled_t2 :: task_partial where
  "untitled_t2 = empty_partial\<lparr> p_id := Some ''t2'' \<rparr>"

text \<open>A success for \<open>q1\<close> together with a resolved conflict for \<open>q2\<close>.\<close>

definition mixed_response :: batch_sync_response where
  "mixed_response = \<lparr> processed_items = [example_result Success, conflict_result remote_t2] \<rparr>"

section \<open>Auxiliary facts\<close>

lemma find_Some_holds: "find P xs = Some x \<Longrightarrow> P x \<and> x \<in> set xs"
  by (induction xs) (auto split: if_splits)

lemma getTaskById_Some: "getTaskById db i = Some t \<Longrightarrow> t_id t = i \<and> t \<in> set (tasks db)"
  unfolding getTaskById_def by (drule find_Some_holds) simp

lemma map_if_absent: "k \<notin> set (map f xs) \<Longrightarrow> map (\<lambda>x. if f x = k then g x else x) xs = xs"
  by (induction xs) auto

lemma updateTask_row_to_partial:
  "updateTask_row (to_partial t) (t_title t) now row =
     t\<lparr> t_id := t_id row, t_created_at := t_created_at row \<rparr>"
  by (simp add: updateTask_row_def to_partial_def)

text \<open>Writing a full \<open>Task\<close> never violates a constraint: the row with its id, if there
  is one, takes every column but \<open>created_at\<close> from it.\<close>

lemma db_updateTask_to_partial:
  "db_updateTask db (to_partial t) now =
     Inr (db\<lparr> tasks := map (\<lambda>row. if t_id row = t_id t
                                then t\<lparr> t_created_at := t_created_at row \<rparr> else row) (tasks db) \<rparr>)"
proof (cases "t_id t \<in> set (map t_id (tasks db))")
  case True
  have "\<And>row. t_id row = t_id t \<Longrightarrow>
      updateTask_row (to_partial t) (t_title t) now row = t\<lparr> t_created_at := t_created_at row \<rparr>"
    by (simp add: updateTask_row_to_partial)
  then have "map (\<lambda>row. if t_id row = t_id t
                        then updateTask_row (to_partial t) (t_title t) now row else row) (tasks db)
     = map (\<lambda>row. if t_id row = t_id t then t\<lparr> t_created_at := t_created_at row \<rparr> else row)
         (tasks db)"
    by (intro map_cong) auto
  with True show ?thesis
    by (simp add: db_updateTask_def to_partial_def[of t, THEN arg_cong[of _ _ p_id]]
        to_partial_def[of t, THEN arg_cong[of _ _ p_title]])
next
  case False
  then show ?thesis
    by (simp add: db_updateTask_def map_if_absent
        to_partial_def[of t, THEN arg_cong[of _ _ p_id]])
qed

text \<open>A cycle whose POST is rejected: the \<open>catch\<close> branch of \<open>sync\<close> builds the summary
  and writes nothing.\<close>

lemma sync_rejected_post:
  "sync db (Inl e) now =
     (if drain db = []
      then \<lparr> success = True, synced_items = 0, failed_items = 0, errors = [] \<rparr>
      else \<lparr> success = False, synced_items = 0, failed_items = length (drain db),
             errors = map (\<lambda>item. \<lparr> e_task_id = q_id item,
                                    e_operation = op_name (q_operation item),
                                    e_error = message e, e_timestamp = now \<rparr>) (drain db) \<rparr>,
      db)"
  by (simp add: sync_def processBatch_def Let_def)

lemma drain_example_db: "drain example_db = [as_item example_row]"
  by (simp add: drain_def pending_rows_def example_db_def example_row_def)

subsection \<open>Task endpoints\<close>

lemma insert_queue_row_Inr:
  "insert_queue_row db row = Inr db' \<Longrightarrow>
     sync_queue db' = sync_queue db @ [row] \<and> tasks db' = tasks db"
  by (auto simp: insert_queue_row_def split: if_splits)

lemma createTask_Inr:
  assumes "createTask db data u1 u2 now = (Inr t, db')"
  shows "\<exists>r. sync_queue db' = sync_queue db @ [r] \<and> q_status r = ''pending''
           \<and> q_task_id r = t_id t \<and> q_operation r = Create"
  using assms
  by (auto simp: createTask_def Let_def insertTask_def db_addToSyncQueue_def
      dest!: insert_queue_row_Inr split: sum.splits if_splits)

lemma deleteTask_Inr:
  assumes "deleteTask db i u now = (Inr True, db')"
  shows "\<exists>r. sync_queue db' = sync_queue db @ [r] \<and> q_status r = ''pending''
           \<and> q_task_id r = i \<and> q_operation r = Delete"
  using assms
  by (auto simp: deleteTask_def Let_def db_updateTask_to_partial db_addToSyncQueue_def
      dest!: insert_queue_row_Inr getTaskById_Some split: sum.splits option.splits)

lemma updateTask_Inr:
  assumes "updateTask db i updates u now = (Inr (Some t), db')"
  shows "\<exists>r. sync_queue db' = sync_queue db @ [r] \<and> q_status r = ''pending''
           \<and> q_task_id r = t_id t \<and> q_operation r = Update"
  using assms
  by (auto simp: updateTask_def Let_def db_updateTask_to_partial db_addToSyncQueue_def
      dest!: insert_queue_row_Inr split: sum.splits option.splits)

lemma updateTask_None:
  assumes "updateTask db i updates u now = (Inr None, db')"
  shows "getTaskById db i = None"
  using assms
  by (auto simp: updateTask_def Let_def split: sum.splits option.splits)

lemma addToSyncQueue_Inr:
  "addToSyncQueue db i op d u iso_text = Inr db' \<Longrightarrow>
   \<exists>r. sync_queue db' = sync_queue db @ [r] \<and> q_status r = ''pending''
           \<and> q_task_id r = i \<and> q_operation r = op"
  by (auto simp: addToSyncQueue_def dest!: insert_queue_row_Inr)

subsection \<open>The drain query and one failing cycle\<close>

lemma find_distinct_key:
  "distinct (map f xs) \<Longrightarrow> x \<in> set xs \<Longrightarrow> find (\<lambda>y. f y = f x) xs = Some x"
  by (induction xs) (auto simp: image_iff)

lemma map_q_id_as_item: "map q_id (map as_item rows) = map q_id rows"
  by (simp add: as_item_def)

lemma distinct_drain:
  assumes "distinct (map q_id (sync_queue db))"
  shows "distinct (map q_id (drain db))"
proof -
  have "distinct (map q_id (pending_rows db))"
    using assms unfolding pending_rows_def by (rule distinct_map_filter)
  then have "distinct (map q_id (sort_key order_key (pending_rows db)))"
    by (simp add: distinct_map)
  then show ?thesis
    unfolding drain_def map_q_id_as_item .
qed

lemma drain_member:
  "row \<in> set (sync_queue db) \<Longrightarrow> q_status row = ''pending'' \<Longrightarrow> as_item row \<in> set (drain db)"
  by (simp add: drain_def pending_rows_def)

lemma find_drain:
  assumes "row \<in> set (sync_queue db)" and "q_status row = ''pending''"
    and "distinct (map q_id (sync_queue db))"
  shows "find (\<lambda>i. q_id i = q_id row) (drain db) = Some (as_item row)"
proof -
  have "find (\<lambda>i. q_id i = q_id (as_item row)) (drain db) = Some (as_item row)"
    using distinct_drain[OF assms(3)] drain_member[OF assms(1,2)] by (rule find_distinct_key)
  then show ?thesis by (simp add: as_item_def)
qed

lemma handleSyncError_below:
  assumes "q_retry_count item + 1 < 3"
  shows "handleSyncError db item err =
     Inr (db\<lparr> sync_queue :=
          map (\<lambda>row. if q_id row = q_id item
                      then row\<lparr> q_retry_count := q_retry_count item + 1,
                               q_error_message := Some (message err),
                               q_status := ''pending'' \<rparr>
                      else row) (sync_queue db) \<rparr>)"
  using assms by (simp add: handleSyncError_def maxRetries_def Let_def)

lemma handleSyncError_ceiling:
  assumes "3 \<le> q_retry_count item + 1" and "q_id item \<notin> set (map d_id (dead_letter_queue db))"
  shows "handleSyncError db item err =
     Inr (db\<lparr> dead_letter_queue := dead_letter_queue db @
              [\<lparr> d_id = q_id item, d_task_id = q_task_id item, d_operation = q_operation item,
                 d_data = q_data item, d_created_at = q_created_at item,
                 d_error_message = Some (message err) \<rparr>],
            sync_queue := filter (\<lambda>row. q_id row \<noteq> q_id item) (sync_queue db) \<rparr>)"
  using assms by (simp add: handleSyncError_def maxRetries_def Let_def addToDeadLetterQueue_def)

text \<open>A cycle whose response is the single result \<open>r\<close>, an error for the pending row.\<close>

lemma sync_single_error:
  assumes "row \<in> set (sync_queue db)" and "q_status row = ''pending''"
    and "distinct (map q_id (sync_queue db))"
    and "res_client_id r = q_id row" and "res_status r = Error"
    and "handleSyncError db (as_item row) (JsError (js_or (res_error r) ''Unknown error'')) = Inr db'"
  shows "snd (sync db (Inr \<lparr> processed_items = [r] \<rparr>) now) = db'"
proof -
  have ne: "drain db \<noteq> []"
    using drain_member[OF assms(1,2)] by auto
  have f: "find (\<lambda>i. q_id i = res_client_id r) (drain db) = Some (as_item row)"
    using find_drain[OF assms(1,2,3)] assms(4) by simp
  have "apply_result db (as_item row) r now = Inr db'"
    using assms(5,6) by (simp add: apply_result_def)
  then have "apply_results db (drain db) [r] now = (None, db')"
    using f by simp
  then show ?thesis
    using ne by (simp add: sync_def Let_def processBatch_def)
qed

lemma row_update_distinct:
  "map q_id (map (\<lambda>row. if q_id row = k then row\<lparr> q_retry_count := n, q_error_message := m,
                               q_status := s \<rparr> else row) rows) = map q_id rows"
  by (induction rows) auto

lemma sync_error_cycle_below:
  assumes "row \<in> set (sync_queue db)" and "q_status row = ''pending''"
    and "distinct (map q_id (sync_queue db))"
    and "res_client_id r = q_id row" and "res_status r = Error"
    and "q_retry_count row + 1 < 3"
  shows "row\<lparr> q_retry_count := q_retry_count row + 1,
              q_error_message := Some (js_or (res_error r) ''Unknown error''),
              q_status := ''pending'' \<rparr>
           \<in> set (sync_queue (snd (sync db (Inr \<lparr> processed_items = [r] \<rparr>) now)))
     \<and> distinct (map q_id (sync_queue (snd (sync db (Inr \<lparr> processed_items = [r] \<rparr>) now))))
     \<and> dead_letter_queue (snd (sync db (Inr \<lparr> processed_items = [r] \<rparr>) now)) = dead_letter_queue db"
proof -
  let ?err = "JsError (js_or (res_error r) ''Unknown error'')"
  let ?db' = "db\<lparr> sync_queue :=
          map (\<lambda>x. if q_id x = q_id (as_item row)
                      then x\<lparr> q_retry_count := q_retry_count (as_item row) + 1,
                               q_error_message := Some (message ?err),
                               q_status := ''pending'' \<rparr>
                      else x) (sync_queue db) \<rparr>"
  have h: "handleSyncError db (as_item row) ?err = Inr ?db'"
    using assms(6) by (intro handleSyncError_below) (simp add: as_item_def)
  have s: "snd (sync db (Inr \<lparr> processed_items = [r] \<rparr>) now) = ?db'"
    using assms(1-5) h by (rule sync_single_error)
  have m: "row\<lparr> q_retry_count := q_retry_count row + 1,
              q_error_message := Some (js_or (res_error r) ''Unknown error''),
              q_status := ''pending'' \<rparr> \<in> set (sync_queue ?db')"
    using assms(1) by (simp add: as_item_def image_iff) (rule bexI[of _ row], simp_all)
  have d: "distinct (map q_id (sync_queue ?db'))"
    using assms(3) by (simp add: row_update_distinct del: map_map)
  show ?thesis unfolding s using m d by simp
qed

lemma sync_error_cycle_ceiling:
  assumes "row \<in> set (sync_queue db)" and "q_status row = ''pending''"
    and "distinct (map q_id (sync_queue db))"
    and "res_client_id r = q_id row" and "res_status r = Error"
    and "3 \<le> q_retry_count row + 1"
    and "q_id row \<notin> set (map d_id (dead_letter_queue db))"
  shows "q_id row \<in> set (map d_id (dead_letter_queue (snd (sync db (Inr \<lparr> processed_items = [r] \<rparr>) now))))
     \<and> q_id row \<notin> set (map q_id (sync_queue (snd (sync db (Inr \<lparr> processed_items = [r] \<rparr>) now))))"
proof -
  let ?err = "JsError (js_or (res_error r) ''Unknown error'')"
  let ?item = "as_item row"
  let ?db' = "db\<lparr> dead_letter_queue := dead_letter_queue db @
              [\<lparr> d_id = q_id ?item, d_task_id = q_task_id ?item, d_operation = q_operation ?item,
                 d_data = q_data ?item, d_created_at = q_created_at ?item,
                 d_error_message = Some (message ?err) \<rparr>],
            sync_queue := filter (\<lambda>x. q_id x \<noteq> q_id ?item) (sync_queue db) \<rparr>"
  have h: "handleSyncError db ?item ?err = Inr ?db'"
    using assms(6,7) by (intro handleSyncError_ceiling) (simp_all add: as_item_def)
  have s: "snd (sync db (Inr \<lparr> processed_items = [r] \<rparr>) now) = ?db'"
    using assms(1-5) h by (rule sync_single_error)
  show ?thesis unfolding s by (auto simp: as_item_def)
qed

subsection \<open>The loop of processBatch on successes and failures\<close>

lemma find_map_same_key:
  assumes "\<And>x. f (g x) = f x"
  shows "find (\<lambda>x. f x = k) (map g xs) = map_option g (find (\<lambda>x. f x = k) xs)"
  by (induction xs) (auto simp: assms)

text \<open>\<open>updateTaskAfterSync\<close> never throws; it touches no queue, and of the tasks only
  the one with the given id.\<close>

lemma updateTaskAfterSync_effect:
  "\<exists>db'. updateTaskAfterSync db a s now = Inr db'
     \<and> sync_queue db' = sync_queue db
     \<and> dead_letter_queue db' = dead_letter_queue db
     \<and> (\<forall>T. getTaskById db' T =
           (if T = a
            then map_option (\<lambda>t. t\<lparr> t_server_id := Some s, t_sync_status := TaskSynced,
                                     t_last_synced_at := Some now \<rparr>) (getTaskById db T)
            else getTaskById db T))"
proof (cases "getTaskById db a")
  case None
  then show ?thesis by (simp add: updateTaskAfterSync_def)
next
  case (Some t)
  then have ta: "t_id t = a" by (simp add: getTaskById_Some)
  let ?t' = "t\<lparr> t_server_id := Some s, t_sync_status := TaskSynced, t_last_synced_at := Some now \<rparr>"
  let ?g = "\<lambda>row. if t_id row = a then ?t'\<lparr> t_created_at := t_created_at row \<rparr> else row"
  let ?db' = "db\<lparr> tasks := map ?g (tasks db) \<rparr>"
  have u: "updateTaskAfterSync db a s now = Inr ?db'"
    using Some ta by (simp add: updateTaskAfterSync_def db_updateTask_to_partial)
  have key: "\<And>x. t_id (?g x) = t_id x" using ta by simp
  have g: "\<And>T. getTaskById ?db' T = map_option ?g (getTaskById db T)"
    unfolding getTaskById_def by (simp add: find_map_same_key[where f = t_id and g = ?g, OF key])
  have "\<forall>T. getTaskById ?db' T =
           (if T = a
            then map_option (\<lambda>t. t\<lparr> t_server_id := Some s, t_sync_status := TaskSynced,
                                     t_last_synced_at := Some now \<rparr>) (getTaskById db T)
            else getTaskById db T)"
  proof
    fix T
    show "getTaskById ?db' T =
           (if T = a
            then map_option (\<lambda>t. t\<lparr> t_server_id := Some s, t_sync_status := TaskSynced,
                                     t_last_synced_at := Some now \<rparr>) (getTaskById db T)
            else getTaskById db T)"
    proof (cases "getTaskById db T")
      case None
      then show ?thesis by (auto simp: g)
    next
      case (Some x)
      then have "t_id x = T" by (simp add: getTaskById_Some)
      then show ?thesis using Some \<open>getTaskById db a = Some t\<close> by (auto simp: g)
    qed
  qed
  then show ?thesis using u by simp
qed

lemma filter_map_other_id:
  assumes "k \<noteq> j" and "\<And>x. q_id (g x) = q_id x"
  shows "filter (\<lambda>row. q_id row = k) (map (\<lambda>row. if q_id row = j then g row else row) rows)
       = filter (\<lambda>row. q_id row = k) rows"
  using assms by (induction rows) auto

lemma filter_map_same_id:
  assumes "\<And>x. q_id (g x) = q_id x"
  shows "filter (\<lambda>row. q_id row = k) (map (\<lambda>row. if q_id row = k then g row else row) rows)
       = map g (filter (\<lambda>row. q_id row = k) rows)"
  using assms by (induction rows) auto

lemma filter_filter_other_id:
  assumes "k \<noteq> j"
  shows "filter (\<lambda>row. q_id row \<noteq> j \<and> q_id row = k) rows
       = filter (\<lambda>row. q_id row = k) rows"
  using assms by (induction rows) auto

lemma apply_result_success:
  assumes "res_status r = Success"
  shows "\<exists>db'. apply_result db item r now = Inr db'
     \<and> sync_queue db' = map (\<lambda>row. if q_id row = q_id item
                 then row\<lparr> q_status := ''synced'', q_error_message := None \<rparr> else row) (sync_queue db)
     \<and> (\<forall>T. getTaskById db' T =
           (if T = q_task_id item
            then map_option (\<lambda>t. t\<lparr> t_server_id := Some (res_server_id r),
                                     t_sync_status := TaskSynced,
                                     t_last_synced_at := Some now \<rparr>) (getTaskById db T)
            else getTaskById db T))"
  using assms
    updateTaskAfterSync_effect[of "mark_synced_clear db (q_id item)" "q_task_id item" "res_server_id r" now]
  by (auto simp: apply_result_def mark_synced_clear_def getTaskById_def)

lemma apply_result_failure:
  assumes "apply_result db item r now = Inr db'"
    and "res_status r \<noteq> Success"
    and "\<not> (res_status r = Conflict \<and> res_resolved_data r \<noteq> None)"
    and "k \<noteq> q_id item"
  shows "tasks db' = tasks db
     \<and> filter (\<lambda>row. q_id row = k) (sync_queue db') = filter (\<lambda>row. q_id row = k) (sync_queue db)"
proof -
  have h: "handleSyncError db item (JsError (js_or (res_error r) ''Unknown error'')) = Inr db'"
    using assms(1,2,3) by (auto simp: apply_result_def split: if_splits)
  show ?thesis
  proof (cases "q_retry_count item + 1 < 3")
    case True
    then show ?thesis
      using h assms(4)
      by (auto simp: handleSyncError_def maxRetries_def Let_def filter_map_other_id)
  next
    case False
    then show ?thesis
      using h assms(4)
      by (auto simp: handleSyncError_def maxRetries_def Let_def addToDeadLetterQueue_def
          filter_filter_other_id split: if_splits)
  qed
qed

lemma updateTask_row_id: "t_id (updateTask_row p title now row) = t_id row"
  by (simp add: updateTask_row_def)

lemma db_updateTask_effect:
  assumes "db_updateTask db p now = Inr db'"
  shows "sync_queue db' = sync_queue db"
    and "dead_letter_queue db' = dead_letter_queue db"
    and "getTaskById db T \<noteq> None \<Longrightarrow> getTaskById db' T \<noteq> None"
    and "p_id p \<noteq> Some T \<Longrightarrow> getTaskById db' T = getTaskById db T"
    and "p_id p = Some T \<Longrightarrow> getTaskById db T \<noteq> None \<Longrightarrow>
           \<exists>t'. getTaskById db' T = Some t'
              \<and> t_sync_status t' = (case p_sync_status p of Some s \<Rightarrow> s | None \<Rightarrow> TaskPending)
              \<and> t_server_id t' = p_server_id p"
proof -
  have "sync_queue db' = sync_queue db \<and> dead_letter_queue db' = dead_letter_queue db
    \<and> (getTaskById db T \<noteq> None \<longrightarrow> getTaskById db' T \<noteq> None)
    \<and> (p_id p \<noteq> Some T \<longrightarrow> getTaskById db' T = getTaskById db T)
    \<and> (p_id p = Some T \<and> getTaskById db T \<noteq> None \<longrightarrow>
           (\<exists>t'. getTaskById db' T = Some t'
              \<and> t_sync_status t' = (case p_sync_status p of Some s \<Rightarrow> s | None \<Rightarrow> TaskPending)
              \<and> t_server_id t' = p_server_id p))"
  proof (cases "p_id p")
    case None
    with assms show ?thesis by (simp add: db_updateTask_def)
  next
    case (Some i)
    show ?thesis
    proof (cases "i \<in> set (map t_id (tasks db))")
      case False
      with assms Some have "db' = db" by (simp add: db_updateTask_def)
      moreover have "getTaskById db i = None"
        using False by (auto simp: getTaskById_def find_None_iff)
      ultimately show ?thesis using Some by auto
    next
      case True
      with assms Some obtain title where ti: "p_title p = Some title"
        by (cases "p_title p") (auto simp: db_updateTask_def)
      let ?g = "\<lambda>row. if t_id row = i then updateTask_row p title now row else row"
      have d: "db' = db\<lparr> tasks := map ?g (tasks db) \<rparr>"
        using assms Some True ti by (simp add: db_updateTask_def)
      have key: "\<And>x. t_id (?g x) = t_id x" by (simp add: updateTask_row_id)
      have g: "getTaskById db' T = map_option ?g (getTaskById db T)"
        unfolding getTaskById_def d
        by (simp add: find_map_same_key[where f = t_id and g = ?g, OF key])
      show ?thesis
      proof (cases "getTaskById db T")
        case None
        then show ?thesis using g d by simp
      next
        case (Some x)
        then have "t_id x = T" by (simp add: getTaskById_Some)
        then show ?thesis using Some g d \<open>p_id p = Some i\<close>
          by (auto simp: updateTask_row_def)
      qed
    qed
  qed
  then show "sync_queue db' = sync_queue db"
    and "dead_letter_queue db' = dead_letter_queue db"
    and "getTaskById db T \<noteq> None \<Longrightarrow> getTaskById db' T \<noteq> None"
    and "p_id p \<noteq> Some T \<Longrightarrow> getTaskById db' T = getTaskById db T"
    and "p_id p = Some T \<Longrightarrow> getTaskById db T \<noteq> None \<Longrightarrow>
           \<exists>t'. getTaskById db' T = Some t'
              \<and> t_sync_status t' = (case p_sync_status p of Some s \<Rightarrow> s | None \<Rightarrow> TaskPending)
              \<and> t_server_id t' = p_server_id p"
    by blast+
qed

text \<open>The conflict branch: the resolved task is written with status \<open>synced\<close>, then the
  row of the entry is marked.\<close>

lemma apply_result_conflict:
  assumes a: "apply_result db item r now = Inr db'"
    and c: "res_status r = Conflict" and d: "res_resolved_data r \<noteq> None"
  shows "\<exists>rt db1. resolved_by item r = Some rt
     \<and> db_updateTask db (rt\<lparr> p_sync_status := Some TaskSynced, p_last_synced_at := Some now \<rparr>) now
         = Inr db1
     \<and> db' = mark_synced db1 (q_id item)"
proof -
  from d obtain s where s: "res_resolved_data r = Some s" by auto
  let ?rt = "resolved_task (resolveConflict (q_data item) s (q_operation item)
                        (case res_operation r of Some op \<Rightarrow> op | None \<Rightarrow> Update))"
  have rb: "resolved_by item r = Some ?rt" using c s by (simp add: resolved_by_def)
  from a c s obtain db1 where
    u: "saveResolvedTask db ?rt now = Inr db1" and m: "db' = mark_synced db1 (q_id item)"
    by (cases "saveResolvedTask db ?rt now") (auto simp: apply_result_def Let_def)
  show ?thesis using rb u m by (auto simp: saveResolvedTask_def)
qed

lemma rows_with_id_mark_synced:
  "k \<noteq> j \<Longrightarrow> rows_with_id (mark_synced db j) k = rows_with_id db k"
  by (simp add: rows_with_id_def mark_synced_def filter_map_other_id)

lemma getTaskById_mark_synced: "getTaskById (mark_synced db j) T = getTaskById db T"
  by (simp add: getTaskById_def mark_synced_def)

lemma apply_result_failure_branch:
  assumes "apply_result db item r now = Inr db'"
    and "res_status r \<noteq> Success"
    and "\<not> (res_status r = Conflict \<and> res_resolved_data r \<noteq> None)"
  shows "tasks db' = tasks db"
    and "k \<noteq> q_id item \<Longrightarrow> rows_with_id db' k = rows_with_id db k"
  using apply_result_failure[OF assms, of k] apply_result_failure[OF assms, of "CHR ''x'' # q_id item"]
  by (auto simp: rows_with_id_def)

text \<open>One iteration of the loop, seen from the rows with id \<open>k\<close>.\<close>

lemma apply_result_rows:
  assumes a: "apply_result db it r now = Inr db1"
    and id: "q_id it = res_client_id r"
    and ok: "res_client_id r = k \<longrightarrow> res_status r = Success"
  shows "(rows_with_id db k \<noteq> [] \<longrightarrow> rows_with_id db1 k \<noteq> [])
     \<and> (list_all (\<lambda>row. q_status row = ''synced'') (rows_with_id db k) \<longrightarrow>
          list_all (\<lambda>row. q_status row = ''synced'') (rows_with_id db1 k))
     \<and> (res_client_id r = k \<longrightarrow>
          list_all (\<lambda>row. q_status row = ''synced'') (rows_with_id db1 k))"
proof (cases "res_status r = Success")
  case True
  from apply_result_success[OF True, of db it now] a
  have q: "sync_queue db1 = map (\<lambda>row. if q_id row = q_id it
                 then row\<lparr> q_status := ''synced'', q_error_message := None \<rparr> else row) (sync_queue db)"
    by auto
  have rows: "rows_with_id db1 k =
      (if k = q_id it
       then map (\<lambda>row. row\<lparr> q_status := ''synced'', q_error_message := None \<rparr>) (rows_with_id db k)
       else rows_with_id db k)"
    unfolding rows_with_id_def q
    by (simp add: filter_map_same_id filter_map_other_id)
  show ?thesis
    using id by (auto simp: rows list_all_iff)
next
  case False
  with ok id have ne: "k \<noteq> q_id it" by auto
  have "rows_with_id db1 k = rows_with_id db k"
  proof (cases "res_status r = Conflict \<and> res_resolved_data r \<noteq> None")
    case True
    with apply_result_conflict[OF a] obtain rt db2 where
      u: "db_updateTask db (rt\<lparr> p_sync_status := Some TaskSynced, p_last_synced_at := Some now \<rparr>) now
         = Inr db2" and m: "db1 = mark_synced db2 (q_id it)"
      by auto
    have "rows_with_id db2 k = rows_with_id db k"
      using db_updateTask_effect(1)[OF u] by (simp add: rows_with_id_def)
    then show ?thesis using m ne by (simp add: rows_with_id_mark_synced)
  next
    case nc: False
    from apply_result_failure_branch(2)[OF a False nc ne] show ?thesis .
  qed
  then show ?thesis using ne id by simp
qed

text \<open>One iteration of the loop, seen from the task with id \<open>T\<close>.\<close>

lemma apply_result_task:
  assumes a: "apply_result db it r now = Inr db1"
    and nclear: "\<not> (\<exists>rt. resolved_by it r = Some rt \<and> p_id rt = Some T \<and> p_server_id rt = None)"
  shows "(getTaskById db T \<noteq> None \<longrightarrow> getTaskById db1 T \<noteq> None)
     \<and> (task_synced db T \<longrightarrow> task_synced db1 T)
     \<and> (res_status r = Success \<and> q_task_id it = T \<and> getTaskById db T \<noteq> None \<longrightarrow>
          task_synced db1 T)"
proof (cases "res_status r = Success")
  case True
  from apply_result_success[OF True, of db it now] a
  have t: "\<And>T. getTaskById db1 T =
           (if T = q_task_id it
            then map_option (\<lambda>t. t\<lparr> t_server_id := Some (res_server_id r),
                                     t_sync_status := TaskSynced,
                                     t_last_synced_at := Some now \<rparr>) (getTaskById db T)
            else getTaskById db T)"
    by auto
  show ?thesis
    by (auto simp: t task_synced_def split: option.splits)
next
  case False
  show ?thesis
  proof (cases "res_status r = Conflict \<and> res_resolved_data r \<noteq> None")
    case True
    with apply_result_conflict[OF a] obtain rt db2 where
      rb: "resolved_by it r = Some rt" and
      u: "db_updateTask db (rt\<lparr> p_sync_status := Some TaskSynced, p_last_synced_at := Some now \<rparr>) now
         = Inr db2" and m: "db1 = mark_synced db2 (q_id it)"
      by auto
    let ?p = "rt\<lparr> p_sync_status := Some TaskSynced, p_last_synced_at := Some now \<rparr>"
    have g1: "getTaskById db1 T = getTaskById db2 T"
      using m by (simp add: getTaskById_mark_synced)
    have e: "getTaskById db T \<noteq> None \<longrightarrow> getTaskById db2 T \<noteq> None"
      using db_updateTask_effect(3)[OF u] by blast
    have s: "task_synced db T \<longrightarrow> task_synced db2 T"
    proof (cases "p_id ?p = Some T")
      case False
      from db_updateTask_effect(4)[OF u False] show ?thesis by (simp add: task_synced_def)
    next
      case True
      then have "p_id rt = Some T" by simp
      with rb nclear have sid: "p_server_id rt \<noteq> None" by auto
      show ?thesis
      proof
        assume "task_synced db T"
        then have "getTaskById db T \<noteq> None" by (auto simp: task_synced_def split: option.splits)
        from db_updateTask_effect(5)[OF u True this] sid
        show "task_synced db2 T" by (auto simp: task_synced_def)
      qed
    qed
    show ?thesis using False e s by (simp add: g1 task_synced_def)
  next
    case nc: False
    from apply_result_failure_branch(1)[OF a False nc]
    have "tasks db1 = tasks db" .
    then show ?thesis using False by (simp add: task_synced_def getTaskById_def)
  qed
qed

lemma apply_results_rows_invariant:
  assumes "apply_results db items rs now = (None, db')"
    and "\<forall>r \<in> set rs. res_client_id r = k \<longrightarrow> res_status r = Success"
    and "find (\<lambda>i. q_id i = k) items = Some item"
  shows "(rows_with_id db k \<noteq> [] \<longrightarrow> rows_with_id db' k \<noteq> [])
     \<and> (list_all (\<lambda>row. q_status row = ''synced'') (rows_with_id db k)
          \<or> (\<exists>r \<in> set rs. res_client_id r = k) \<longrightarrow>
          list_all (\<lambda>row. q_status row = ''synced'') (rows_with_id db' k))"
  using assms
proof (induction rs arbitrary: db)
  case Nil
  then show ?case by simp
next
  case (Cons r rs)
  have ex: "(\<exists>x \<in> set (r # rs). res_client_id x = k) =
      (res_client_id r = k \<or> (\<exists>x \<in> set rs. res_client_id x = k))"
    by simp
  show ?case
  proof (cases "find (\<lambda>i. q_id i = res_client_id r) items")
    case None
    with Cons.prems(3) have nk: "res_client_id r \<noteq> k" by auto
    from None Cons.prems(1) have "apply_results db items rs now = (None, db')" by simp
    from Cons.IH[OF this] Cons.prems(2,3) nk show ?thesis by simp
  next
    case (Some it)
    then have id: "q_id it = res_client_id r" by (auto dest: find_Some_holds)
    from Some Cons.prems(1) obtain db1 where
      a: "apply_result db it r now = Inr db1" and rest: "apply_results db1 items rs now = (None, db')"
      by (cases "apply_result db it r now") auto
    have ok: "res_client_id r = k \<longrightarrow> res_status r = Success"
      using Cons.prems(2) by auto
    note s = apply_result_rows[OF a id ok]
    have ih: "(rows_with_id db1 k \<noteq> [] \<longrightarrow> rows_with_id db' k \<noteq> [])
     \<and> (list_all (\<lambda>row. q_status row = ''synced'') (rows_with_id db1 k)
          \<or> (\<exists>r \<in> set rs. res_client_id r = k) \<longrightarrow>
          list_all (\<lambda>row. q_status row = ''synced'') (rows_with_id db' k))"
      using Cons.IH[OF rest] Cons.prems(2,3) by simp
    have c1: "rows_with_id db k \<noteq> [] \<longrightarrow> rows_with_id db' k \<noteq> []"
      using s ih by blast
    have c2: "list_all (\<lambda>row. q_status row = ''synced'') (rows_with_id db k)
          \<or> (\<exists>x \<in> set (r # rs). res_client_id x = k) \<longrightarrow>
          list_all (\<lambda>row. q_status row = ''synced'') (rows_with_id db' k)"
      unfolding ex using s ih by blast
    show ?thesis using c1 c2 by blast
  qed
qed

lemma apply_results_task_invariant:
  assumes "apply_results db items rs now = (None, db')"
    and "\<forall>r \<in> set rs. res_client_id r = k \<longrightarrow> res_status r = Success"
    and "find (\<lambda>i. q_id i = k) items = Some item"
    and "\<forall>r \<in> set rs. \<not> clears_server_id items T r"
  shows "(getTaskById db T \<noteq> None \<longrightarrow> getTaskById db' T \<noteq> None)
     \<and> (task_synced db T \<longrightarrow> task_synced db' T)
     \<and> ((\<exists>r \<in> set rs. res_client_id r = k) \<and> q_task_id item = T
           \<and> getTaskById db T \<noteq> None \<longrightarrow> task_synced db' T)"
  using assms
proof (induction rs arbitrary: db)
  case Nil
  then show ?case by simp
next
  case (Cons r rs)
  have ex: "(\<exists>x \<in> set (r # rs). res_client_id x = k) =
      (res_client_id r = k \<or> (\<exists>x \<in> set rs. res_client_id x = k))"
    by simp
  show ?case
  proof (cases "find (\<lambda>i. q_id i = res_client_id r) items")
    case None
    with Cons.prems(3) have nk: "res_client_id r \<noteq> k" by auto
    from None Cons.prems(1) have "apply_results db items rs now = (None, db')" by simp
    from Cons.IH[OF this] Cons.prems(2,3,4) nk show ?thesis by simp
  next
    case (Some it)
    from Some Cons.prems(1) obtain db1 where
      a: "apply_result db it r now = Inr db1" and rest: "apply_results db1 items rs now = (None, db')"
      by (cases "apply_result db it r now") auto
    have itk: "res_client_id r = k \<Longrightarrow> it = item \<and> res_status r = Success"
      using Some Cons.prems(2,3) by simp
    have ncl: "\<not> (\<exists>rt. resolved_by it r = Some rt \<and> p_id rt = Some T \<and> p_server_id rt = None)"
      using Cons.prems(4) Some by (auto simp: clears_server_id_def)
    note s = apply_result_task[OF a ncl]
    have ih: "(getTaskById db1 T \<noteq> None \<longrightarrow> getTaskById db' T \<noteq> None)
     \<and> (task_synced db1 T \<longrightarrow> task_synced db' T)
     \<and> ((\<exists>r \<in> set rs. res_client_id r = k) \<and> q_task_id item = T
           \<and> getTaskById db1 T \<noteq> None \<longrightarrow> task_synced db' T)"
      using Cons.IH[OF rest] Cons.prems(2,3,4) by simp
    have c1: "getTaskById db T \<noteq> None \<longrightarrow> getTaskById db' T \<noteq> None"
      using s ih by blast
    have c2: "task_synced db T \<longrightarrow> task_synced db' T"
      using s ih by blast
    have c3: "(\<exists>x \<in> set (r # rs). res_client_id x = k) \<and> q_task_id item = T
           \<and> getTaskById db T \<noteq> None \<longrightarrow> task_synced db' T"
    proof (cases "res_client_id r = k")
      case True
      with itk have "it = item" "res_status r = Success" by simp_all
      with s ih show ?thesis by blast
    next
      case False
      then show ?thesis unfolding ex using s ih by blast
    qed
    show ?thesis using c1 c2 c3 by blast
  qed
qed

lemma sync_completed:
  assumes "drain db \<noteq> []" and "success (fst (sync db (Inr resp) now))"
  shows "apply_results db (drain db) (processed_items resp) now
           = (None, snd (sync db (Inr resp) now))"
proof (cases "apply_results db (drain db) (processed_items resp) now")
  case (Pair e db1)
  with assms show ?thesis
    by (cases e) (simp_all add: sync_def processBatch_def Let_def)
qed

lemma drain_item_row:
  assumes "item \<in> set (drain db)"
  shows "\<exists>row \<in> set (sync_queue db). q_status row = ''pending'' \<and> as_item row = item"
  using assms by (auto simp: drain_def pending_rows_def)

lemma q_id_as_item: "q_id (as_item row) = q_id row"
  by (simp add: as_item_def)

lemma sync_example_success:
  "sync example_db (Inr \<lparr> processed_items = [example_result Success] \<rparr>) 2000 =
     (\<lparr> success = True, synced_items = 1, failed_items = 0, errors = [] \<rparr>,
      \<lparr> tasks = [example_task\<lparr> t_sync_status := TaskSynced, t_server_id := Some ''s1'',
                                t_last_synced_at := Some 2000 \<rparr>],
        sync_queue = [example_row\<lparr> q_status := ''synced'' \<rparr>],
        dead_letter_queue = [] \<rparr>)"
proof -
  have f: "q_id (as_item example_row) = ''q1''"
    by (simp add: as_item_def example_row_def)
  have a: "apply_result example_db (as_item example_row) (example_result Success) 2000 =
      Inr \<lparr> tasks = [example_task\<lparr> t_sync_status := TaskSynced, t_server_id := Some ''s1'',
                                t_last_synced_at := Some 2000 \<rparr>],
        sync_queue = [example_row\<lparr> q_status := ''synced'' \<rparr>],
        dead_letter_queue = [] \<rparr>"
    by (simp add: apply_result_def example_result_def mark_synced_clear_def
        updateTaskAfterSync_def getTaskById_def db_updateTask_to_partial as_item_def
        example_db_def example_row_def example_task_def)
  show ?thesis
    by (simp add: sync_def Let_def drain_example_db processBatch_def)
      (simp add: example_result_def[of Success, THEN arg_cong[of _ _ res_client_id]]
        example_result_def[of Success, THEN arg_cong[of _ _ res_status]] f a)
qed

section \<open>Claims\<close>

text \<open>
  C1. Claimed: when the batch POST fails or the authority rejects the checksum, every
  entry of the batch goes through the failure-recording path and its \<open>retry_count\<close>
  grows by one. The \<open>catch\<close> branch of \<open>sync\<close> writes nothing, whatever the queue:
  \<open>handleSyncError\<close> is not called on this path. Evaluated on the one-entry queue with
  the POST rejected (status 400): the summary reports one failed item, but the entry
  keeps \<open>retry_count = 0\<close> and no error message, and nothing reaches the dead-letter
  table.
\<close>

theorem sync_rejected_batch_records_no_failure:
  "snd (sync db (Inl e) now) = db
   \<and> failed_items (fst (sync example_db checksum_rejection 2000)) = 1
   \<and> map q_retry_count (sync_queue (snd (sync example_db checksum_rejection 2000))) = [0]
   \<and> map q_error_message (sync_queue (snd (sync example_db checksum_rejection 2000))) = [None]
   \<and> dead_letter_queue (snd (sync example_db checksum_rejection 2000)) = []"
  by (simp add: checksum_rejection_def sync_rejected_post drain_example_db)
    (simp add: example_db_def example_row_def)

text \<open>
  C2. Claimed: a create, update or soft-delete through the task endpoints leaves exactly
  one new pending queue entry for the task. Each service method enqueues one entry and
  the route handler then enqueues another: whenever \<open>POST /\<close> answers 201, or
  \<open>DELETE /:id\<close> or \<open>PUT /:id\<close> answers 200, the queue has grown by exactly two
  pending rows of that operation.
\<close>

theorem task_endpoints_enqueue_twice:
  "(fst (fst (post_task db body u1 u2 u3 now iso_text)) = 201 \<longrightarrow>
      (\<exists>t r1 r2. snd (fst (post_task db body u1 u2 u3 now iso_text)) = TaskJson t
         \<and> sync_queue (snd (post_task db body u1 u2 u3 now iso_text)) = sync_queue db @ [r1, r2]
         \<and> q_status r1 = ''pending'' \<and> q_status r2 = ''pending''
         \<and> q_task_id r1 = t_id t \<and> q_task_id r2 = t_id t
         \<and> q_operation r1 = Create \<and> q_operation r2 = Create))
 \<and> (fst (fst (delete_task db i u1 u2 now iso_text)) = 200 \<longrightarrow>
      (\<exists>r1 r2. sync_queue (snd (delete_task db i u1 u2 now iso_text)) = sync_queue db @ [r1, r2]
         \<and> q_status r1 = ''pending'' \<and> q_status r2 = ''pending''
         \<and> q_task_id r1 = i \<and> q_task_id r2 = i
         \<and> q_operation r1 = Delete \<and> q_operation r2 = Delete))
 \<and> (fst (fst (put_task db i upd u1 u2 now iso_text)) = 200 \<longrightarrow>
      (\<exists>t r1 r2. snd (fst (put_task db i upd u1 u2 now iso_text)) = TaskJson t
         \<and> sync_queue (snd (put_task db i upd u1 u2 now iso_text)) = sync_queue db @ [r1, r2]
         \<and> q_status r1 = ''pending'' \<and> q_status r2 = ''pending''
         \<and> q_task_id r1 = t_id t \<and> q_task_id r2 = i
         \<and> q_operation r1 = Update \<and> q_operation r2 = Update))"
proof (intro conjI impI)
  let ?data = "empty_partial\<lparr> p_title := b_title body,
                                p_description := Some (js_or (b_description body) []),
                                p_completed := Some False, p_updated_at := Some now \<rparr>"
  assume a: "fst (fst (post_task db body u1 u2 u3 now iso_text)) = 201"
  then have nz: "js_or (b_title body) [] \<noteq> []"
    by (auto simp: post_task_def split: if_splits)
  obtain res db1 where c: "createTask db ?data u1 u2 now = (res, db1)"
    by (cases "createTask db ?data u1 u2 now") auto
  from a nz c obtain t where t: "res = Inr t"
    by (cases res) (auto simp: post_task_def)
  from a nz c t obtain db2 where q: "addToSyncQueue db1 (t_id t) Create (to_partial t) u3 iso_text = Inr db2"
    by (cases "addToSyncQueue db1 (t_id t) Create (to_partial t) u3 iso_text") (auto simp: post_task_def)
  have p: "post_task db body u1 u2 u3 now iso_text = ((201, TaskJson t), db2)"
    using nz c t q by (simp add: post_task_def)
  from createTask_Inr[OF c[unfolded t]] addToSyncQueue_Inr[OF q]
  show "\<exists>t r1 r2. snd (fst (post_task db body u1 u2 u3 now iso_text)) = TaskJson t
         \<and> sync_queue (snd (post_task db body u1 u2 u3 now iso_text)) = sync_queue db @ [r1, r2]
         \<and> q_status r1 = ''pending'' \<and> q_status r2 = ''pending''
         \<and> q_task_id r1 = t_id t \<and> q_task_id r2 = t_id t
         \<and> q_operation r1 = Create \<and> q_operation r2 = Create"
    unfolding p by auto
next
  assume a: "fst (fst (delete_task db i u1 u2 now iso_text)) = 200"
  obtain res db1 where c: "deleteTask db i u1 now = (res, db1)"
    by (cases "deleteTask db i u1 now") auto
  from a c have t: "res = Inr True"
    by (cases res) (auto simp: delete_task_def split: if_splits)
  from a c t obtain db2 where q: "addToSyncQueue db1 i Delete empty_partial u2 iso_text = Inr db2"
    by (cases "addToSyncQueue db1 i Delete empty_partial u2 iso_text") (auto simp: delete_task_def)
  have p: "delete_task db i u1 u2 now iso_text = ((200, SuccessJson), db2)"
    using c t q by (simp add: delete_task_def)
  from deleteTask_Inr[OF c[unfolded t]] addToSyncQueue_Inr[OF q]
  show "\<exists>r1 r2. sync_queue (snd (delete_task db i u1 u2 now iso_text)) = sync_queue db @ [r1, r2]
         \<and> q_status r1 = ''pending'' \<and> q_status r2 = ''pending''
         \<and> q_task_id r1 = i \<and> q_task_id r2 = i
         \<and> q_operation r1 = Delete \<and> q_operation r2 = Delete"
    unfolding p by auto
next
  assume a: "fst (fst (put_task db i upd u1 u2 now iso_text)) = 200"
  then obtain existing where g: "getTask db i = Some existing"
    by (cases "getTask db i") (auto simp: put_task_def)
  then have ex: "getTaskById db i \<noteq> None"
    by (auto simp: getTask_def split: option.splits)
  obtain res db1 where c: "updateTask db i (upd\<lparr> p_updated_at := Some now \<rparr>) u1 now = (res, db1)"
    by (cases "updateTask db i (upd\<lparr> p_updated_at := Some now \<rparr>) u1 now") auto
  from a g c obtain ot where ot: "res = Inr ot"
    by (cases res) (auto simp: put_task_def)
  from c ot ex obtain t where t: "ot = Some t"
    by (cases ot) (auto dest: updateTask_None)
  from a g c ot t obtain db2 where q: "addToSyncQueue db1 i Update (to_partial t) u2 iso_text = Inr db2"
    by (cases "addToSyncQueue db1 i Update (to_partial t) u2 iso_text") (auto simp: put_task_def)
  have p: "put_task db i upd u1 u2 now iso_text = ((200, TaskJson t), db2)"
    using g c ot t q by (simp add: put_task_def)
  from updateTask_Inr[OF c[unfolded ot t]] addToSyncQueue_Inr[OF q]
  show "\<exists>t r1 r2. snd (fst (put_task db i upd u1 u2 now iso_text)) = TaskJson t
         \<and> sync_queue (snd (put_task db i upd u1 u2 now iso_text)) = sync_queue db @ [r1, r2]
         \<and> q_status r1 = ''pending'' \<and> q_status r2 = ''pending''
         \<and> q_task_id r1 = t_id t \<and> q_task_id r2 = i
         \<and> q_operation r1 = Update \<and> q_operation r2 = Update"
    unfolding p by auto
qed

theorem task_endpoints_enqueue_twice_witness:
  "fst (fst (post_task empty_database create_request ''t1'' ''q1'' ''q2'' 1000 iso_1000)) = 201
   \<and> map (\<lambda>row. (q_id row, q_task_id row, q_operation row, q_status row))
       (sync_queue (snd (post_task empty_database create_request ''t1'' ''q1'' ''q2'' 1000 iso_1000)))
      = [(''q1'', ''t1'', Create, ''pending''), (''q2'', ''t1'', Create, ''pending'')]"
  using task_endpoints_enqueue_twice
    [of empty_database create_request "''t1''" "''q1''" "''q2''" 1000 iso_1000]
  by (simp add: post_task_def create_request_def js_or_def createTask_def empty_partial_def
      empty_database_def insertTask_def db_addToSyncQueue_def insert_queue_row_def
      addToSyncQueue_def Let_def)

text \<open>
  C3 as stated fails: after a cycle in which the authority answers \<open>success\<close> for the
  only entry \<open>q1\<close>, \<open>getSyncQueue\<close> still returns \<open>q1\<close>. The success branch of
  \<open>processBatch\<close> updates the row's status; it deletes nothing.
\<close>

theorem sync_success_keeps_row_counterexample:
  "map q_id (getSyncQueue (snd (sync example_db
       (Inr \<lparr> processed_items = [example_result Success] \<rparr>) 2000))) = [''q1'']"
  by (simp add: sync_example_success getSyncQueue_def as_item_def example_row_def)

text \<open>
  Each condition of the amended statement is forced by a batch on which the conclusion
  fails without it: an \<open>error\<close> result for the same entry after its \<open>success\<close> puts
  the row back to \<open>pending\<close>; a statement that throws earlier in the loop (here a
  conflict whose resolved task has no title) ends the cycle before the entry is
  reached; an entry whose task row is missing leaves no task to mark; and a resolved
  conflict that saves the same task without \<open>server_id\<close> clears the \<open>server_id\<close> the
  success had set.
\<close>

lemma success_then_error_leaves_pending:
  "map (\<lambda>row. (q_id row, q_status row, q_retry_count row))
     (sync_queue (snd (sync example_db
        (Inr \<lparr> processed_items = [example_result Success, example_result Error] \<rparr>) 2000)))
   = [(''q1'', ''pending'', 1)]"
  by code_simp

lemma thrown_storage_error_skips_success:
  "success (fst (sync mixed_db
       (Inr \<lparr> processed_items = [conflict_result untitled_t2, example_result Success] \<rparr>) 2000))
     = False
   \<and> map (\<lambda>row. (q_id row, q_status row))
       (sync_queue (snd (sync mixed_db
          (Inr \<lparr> processed_items = [conflict_result untitled_t2, example_result Success] \<rparr>) 2000)))
     = [(''q1'', ''pending''), (''q2'', ''pending'')]"
  by code_simp

lemma success_without_task_row:
  "task_synced (snd (sync (example_db\<lparr> tasks := [] \<rparr>)
        (Inr \<lparr> processed_items = [example_result Success] \<rparr>) 2000)) ''t1'' = False"
  by code_simp

lemma later_conflict_clears_server_id:
  "success (fst (sync mixed_db (Inr \<lparr> processed_items =
       [example_result Success, conflict_result remote_t1_without_server_id] \<rparr>) 2000)) = True
   \<and> map t_server_id (tasks (snd (sync mixed_db (Inr \<lparr> processed_items =
       [example_result Success, conflict_result remote_t1_without_server_id] \<rparr>) 2000)))
     = [None, None]
   \<and> task_synced (snd (sync mixed_db (Inr \<lparr> processed_items =
       [example_result Success, conflict_result remote_t1_without_server_id] \<rparr>) 2000)) ''t1''
     = False"
  by code_simp

text \<open>
  C3, amended. Let a pending entry be the one the loop finds for a \<open>success\<close> result,
  in a cycle that completes without a storage error and whose response holds no other
  kind of result for that entry. After the cycle the entry is still a row of
  \<open>sync_queue\<close>, every row with its id has status \<open>synced\<close>, and the drain query no
  longer returns it. If moreover the entry's task is stored and no resolved conflict of
  the response saves that task without a \<open>server_id\<close>, the task's \<open>sync_status\<close> is
  \<open>synced\<close> and its \<open>server_id\<close> is set. Other results of the batch, resolved
  conflicts for other entries included, do not matter.
\<close>

theorem sync_success_marks_row_synced:
  assumes f: "find (\<lambda>i. q_id i = res_client_id r) (drain db) = Some item"
    and r: "r \<in> set (processed_items resp)" "res_status r = Success"
    and same: "\<forall>x \<in> set (processed_items resp).
                 res_client_id x = res_client_id r \<longrightarrow> res_status x = Success"
    and ok: "success (fst (sync db (Inr resp) now))"
  shows "rows_with_id (snd (sync db (Inr resp) now)) (q_id item) \<noteq> []
     \<and> list_all (\<lambda>row. q_status row = ''synced'')
          (rows_with_id (snd (sync db (Inr resp) now)) (q_id item))
     \<and> q_id item \<notin> set (map q_id (drain (snd (sync db (Inr resp) now))))
     \<and> (getTaskById db (q_task_id item) \<noteq> None
          \<and> (\<forall>x \<in> set (processed_items resp).
                \<not> clears_server_id (drain db) (q_task_id item) x) \<longrightarrow>
          task_synced (snd (sync db (Inr resp) now)) (q_task_id item))"
proof -
  let ?db' = "snd (sync db (Inr resp) now)"
  let ?k = "res_client_id r"
  from f have k: "q_id item = ?k" and mem: "item \<in> set (drain db)"
    by (auto dest: find_Some_holds)
  then have ne: "drain db \<noteq> []" by auto
  from drain_item_row[OF mem] k have rows: "rows_with_id db ?k \<noteq> []"
    by (auto simp: rows_with_id_def filter_empty_conv q_id_as_item)
  have ex: "\<exists>x \<in> set (processed_items resp). res_client_id x = ?k"
    using r(1) by auto
  note run = sync_completed[OF ne ok]
  note inv = apply_results_rows_invariant[OF run same f]
  have a: "rows_with_id ?db' ?k \<noteq> []" using inv rows by blast
  have b: "list_all (\<lambda>row. q_status row = ''synced'') (rows_with_id ?db' ?k)"
    using inv ex by blast
  have c: "getTaskById db (q_task_id item) \<noteq> None
          \<and> (\<forall>x \<in> set (processed_items resp).
                \<not> clears_server_id (drain db) (q_task_id item) x) \<longrightarrow>
          task_synced ?db' (q_task_id item)"
  proof
    assume h: "getTaskById db (q_task_id item) \<noteq> None
          \<and> (\<forall>x \<in> set (processed_items resp).
                \<not> clears_server_id (drain db) (q_task_id item) x)"
    then have ncl: "\<forall>x \<in> set (processed_items resp).
                \<not> clears_server_id (drain db) (q_task_id item) x" by blast
    from apply_results_task_invariant[OF run same f ncl] ex h
    show "task_synced ?db' (q_task_id item)" by blast
  qed
  have d: "?k \<notin> set (map q_id (drain ?db'))"
  proof
    assume "?k \<in> set (map q_id (drain ?db'))"
    then obtain i where "i \<in> set (drain ?db')" and "q_id i = ?k" by auto
    with drain_item_row[of i ?db'] obtain row where
      "row \<in> set (sync_queue ?db')" "q_status row = ''pending''" "q_id row = ?k"
      by (auto simp: q_id_as_item)
    then have "row \<in> set (rows_with_id ?db' ?k)" by (simp add: rows_with_id_def)
    with b have "q_status row = ''synced''" by (simp add: list_all_iff)
    with \<open>q_status row = ''pending''\<close> show False by simp
  qed
  show ?thesis using a b c d k by simp
qed

theorem sync_success_marks_row_synced_witness:
  "rows_with_id (snd (sync mixed_db (Inr mixed_response) 2000)) ''q1'' \<noteq> []
   \<and> list_all (\<lambda>row. q_status row = ''synced'')
        (rows_with_id (snd (sync mixed_db (Inr mixed_response) 2000)) ''q1'')
   \<and> ''q1'' \<notin> set (map q_id (drain (snd (sync mixed_db (Inr mixed_response) 2000))))
   \<and> task_synced (snd (sync mixed_db (Inr mixed_response) 2000)) ''t1''"
proof -
  have f: "find (\<lambda>i. q_id i = res_client_id (example_result Success)) (drain mixed_db)
             = Some (as_item example_row)"
    by code_simp
  have r: "example_result Success \<in> set (processed_items mixed_response)"
    by (simp add: mixed_response_def)
  have st: "res_status (example_result Success) = Success"
    by (simp add: example_result_def)
  have same: "\<forall>x \<in> set (processed_items mixed_response).
      res_client_id x = res_client_id (example_result Success) \<longrightarrow> res_status x = Success"
    by (simp add: mixed_response_def example_result_def conflict_result_def)
  have ok: "success (fst (sync mixed_db (Inr mixed_response) 2000))"
    by code_simp
  have t: "getTaskById mixed_db (q_task_id (as_item example_row)) \<noteq> None"
    by code_simp
  have ncl: "\<forall>x \<in> set (processed_items mixed_response).
      \<not> clears_server_id (drain mixed_db) (q_task_id (as_item example_row)) x"
    by code_simp
  have i: "q_id (as_item example_row) = ''q1''" "q_task_id (as_item example_row) = ''t1''"
    by (simp_all add: as_item_def example_row_def)
  from sync_success_marks_row_synced[OF f r st same ok] t ncl show ?thesis
    unfolding i by blast
qed

text \<open>
  C4. For all task objects \<open>l\<close> (local) and \<open>r\<close> (remote): when both carry an
  \<open>updated_at\<close> and the local one is strictly later, \<open>resolveConflict\<close> returns the
  local object; when the remote one is strictly later it returns the remote object;
  when the two \<open>updated_at\<close> are equal it returns the remote object; and the strategy
  is always \<open>last-write-wins\<close>.
\<close>

theorem resolveConflict_last_write_wins:
  "(\<forall>a b. p_updated_at l = Some a \<and> p_updated_at r = Some b \<and> b < a \<longrightarrow>
        resolved_task (resolveConflict l r lop rop) = l)
   \<and> (\<forall>a b. p_updated_at l = Some a \<and> p_updated_at r = Some b \<and> a < b \<longrightarrow>
        resolved_task (resolveConflict l r lop rop) = r)
   \<and> (p_updated_at l = p_updated_at r \<longrightarrow> resolved_task (resolveConflict l r lop rop) = r)
   \<and> strategy (resolveConflict l r lop rop) = ''last-write-wins''"
  by (auto simp: resolveConflict_def js_gt_def Let_def split: option.splits)

theorem resolveConflict_last_write_wins_witness:
  "resolved_task (resolveConflict newer_task older_task Update Update) = newer_task
   \<and> resolved_task (resolveConflict older_task newer_task Update Update) = newer_task
   \<and> resolved_task (resolveConflict older_task tied_task Update Update) = tied_task
   \<and> strategy (resolveConflict older_task tied_task Update Update) = ''last-write-wins''"
  using resolveConflict_last_write_wins[of newer_task older_task Update Update]
    resolveConflict_last_write_wins[of older_task newer_task Update Update]
    resolveConflict_last_write_wins[of older_task tied_task Update Update]
  by (simp add: older_task_def newer_task_def tied_task_def empty_partial_def)

text \<open>
  C5. For all task objects \<open>A\<close> and \<open>B\<close> whose \<open>updated_at\<close> timestamps differ, the
  resolved task is the same in both argument orders, namely the later one. When the
  timestamps are equal, the resolver returns its second argument in either order, so
  the tie-break follows the position.
\<close>

theorem resolveConflict_symmetric_unless_tie:
  "(\<forall>a b. p_updated_at A = Some a \<and> p_updated_at B = Some b \<and> a \<noteq> b \<longrightarrow>
        resolved_task (resolveConflict A B o1 o2) = resolved_task (resolveConflict B A o3 o4)
        \<and> resolved_task (resolveConflict A B o1 o2) = (if b < a then A else B))
   \<and> (p_updated_at A = p_updated_at B \<longrightarrow>
        resolved_task (resolveConflict A B o1 o2) = B
        \<and> resolved_task (resolveConflict B A o3 o4) = A)"
  by (auto simp: resolveConflict_def js_gt_def Let_def split: option.splits)

theorem resolveConflict_symmetric_unless_tie_witness:
  "resolved_task (resolveConflict older_task newer_task Update Update) =
     resolved_task (resolveConflict newer_task older_task Update Update)
   \<and> resolved_task (resolveConflict older_task tied_task Update Update) = tied_task
   \<and> resolved_task (resolveConflict tied_task older_task Update Update) = older_task
   \<and> older_task \<noteq> tied_task"
  using resolveConflict_symmetric_unless_tie[of older_task newer_task Update Update Update Update]
    resolveConflict_symmetric_unless_tie[of older_task tied_task Update Update Update Update]
  by (simp add: older_task_def newer_task_def tied_task_def empty_partial_def)

text \<open>
  C6. Let \<open>row\<close> be a row of \<open>sync_queue\<close> (ids are unique, as the primary key
  demands) whose id is not yet in the dead-letter table. Recording a failure for it
  succeeds and counts one more retry: while the new count is below 3 the row stays in
  the queue with the new \<open>retry_count\<close>, the error message and status \<open>pending\<close>;
  once the new count reaches 3 the row leaves \<open>sync_queue\<close> and a dead-letter row
  with its id and the error message is appended. Consequently, for a pending row with
  \<open>retry_count = 0\<close> and cycles in which the authority answers \<open>error\<close> for it: after
  two cycles it is pending with \<open>retry_count = 2\<close> and not dead-lettered, after three
  it is in the dead-letter table and no longer in \<open>sync_queue\<close>.
\<close>

theorem handleSyncError_retry_ceiling:
  assumes "row \<in> set (sync_queue db)"
    and "distinct (map q_id (sync_queue db))"
    and "q_id row \<notin> set (map d_id (dead_letter_queue db))"
  shows "(q_retry_count row + 1 < 3 \<longrightarrow>
           (\<exists>db'. handleSyncError db (as_item row) err = Inr db'
              \<and> row\<lparr> q_retry_count := q_retry_count row + 1,
                       q_error_message := Some (message err), q_status := ''pending'' \<rparr>
                   \<in> set (sync_queue db')
              \<and> dead_letter_queue db' = dead_letter_queue db))
      \<and> (3 \<le> q_retry_count row + 1 \<longrightarrow>
           (\<exists>db'. handleSyncError db (as_item row) err = Inr db'
              \<and> q_id row \<notin> set (map q_id (sync_queue db'))
              \<and> dead_letter_queue db' = dead_letter_queue db @
                   [\<lparr> d_id = q_id row, d_task_id = q_task_id row, d_operation = q_operation row,
                      d_data = q_data row, d_created_at = q_created_at row,
                      d_error_message = Some (message err) \<rparr>]))
      \<and> (q_retry_count row = 0 \<and> q_status row = ''pending''
            \<and> res_client_id r = q_id row \<and> res_status r = Error \<longrightarrow>
           (let failing = Inr \<lparr> processed_items = [r] \<rparr>;
                db2 = snd (sync (snd (sync db failing n1)) failing n2);
                db3 = snd (sync db2 failing n3)
            in row\<lparr> q_retry_count := 2,
                     q_error_message := Some (js_or (res_error r) ''Unknown error''),
                     q_status := ''pending'' \<rparr> \<in> set (sync_queue db2)
               \<and> q_id row \<notin> set (map d_id (dead_letter_queue db2))
               \<and> q_id row \<in> set (map d_id (dead_letter_queue db3))
               \<and> q_id row \<notin> set (map q_id (sync_queue db3))))"
proof (intro conjI impI)
  assume b: "q_retry_count row + 1 < 3"
  have "row\<lparr> q_retry_count := q_retry_count row + 1,
              q_error_message := Some (message err), q_status := ''pending'' \<rparr>
          \<in> (\<lambda>x. if q_id x = q_id row
                   then x\<lparr> q_retry_count := q_retry_count row + 1,
                            q_error_message := Some (message err), q_status := ''pending'' \<rparr>
                   else x) ` set (sync_queue db)"
    using assms(1) by (intro image_eqI[of _ _ row]) simp_all
  then show "\<exists>db'. handleSyncError db (as_item row) err = Inr db'
              \<and> row\<lparr> q_retry_count := q_retry_count row + 1,
                       q_error_message := Some (message err), q_status := ''pending'' \<rparr>
                   \<in> set (sync_queue db')
              \<and> dead_letter_queue db' = dead_letter_queue db"
    using b by (simp add: handleSyncError_below as_item_def)
next
  assume c: "3 \<le> q_retry_count row + 1"
  show "\<exists>db'. handleSyncError db (as_item row) err = Inr db'
              \<and> q_id row \<notin> set (map q_id (sync_queue db'))
              \<and> dead_letter_queue db' = dead_letter_queue db @
                   [\<lparr> d_id = q_id row, d_task_id = q_task_id row, d_operation = q_operation row,
                      d_data = q_data row, d_created_at = q_created_at row,
                      d_error_message = Some (message err) \<rparr>]"
    using c assms(3) by (auto simp: handleSyncError_ceiling as_item_def)
next
  assume h: "q_retry_count row = 0 \<and> q_status row = ''pending''
            \<and> res_client_id r = q_id row \<and> res_status r = Error"
  let ?failing = "Inr \<lparr> processed_items = [r] \<rparr> :: js_error + batch_sync_response"
  let ?msg = "Some (js_or (res_error r) ''Unknown error'')"
  let ?db1 = "snd (sync db ?failing n1)"
  let ?db2 = "snd (sync ?db1 ?failing n2)"
  let ?db3 = "snd (sync ?db2 ?failing n3)"
  let ?row1 = "row\<lparr> q_retry_count := 1, q_error_message := ?msg, q_status := ''pending'' \<rparr>"
  let ?row2 = "row\<lparr> q_retry_count := 2, q_error_message := ?msg, q_status := ''pending'' \<rparr>"
  have s1: "?row1 \<in> set (sync_queue ?db1) \<and> distinct (map q_id (sync_queue ?db1))
      \<and> dead_letter_queue ?db1 = dead_letter_queue db"
    using sync_error_cycle_below[of row db r n1] assms(1,2) h by simp
  have s2: "?row2 \<in> set (sync_queue ?db2) \<and> distinct (map q_id (sync_queue ?db2))
      \<and> dead_letter_queue ?db2 = dead_letter_queue ?db1"
    using sync_error_cycle_below[of ?row1 ?db1 r n2] s1 h by (simp add: numeral_2_eq_2)
  have s3: "q_id row \<in> set (map d_id (dead_letter_queue ?db3))
      \<and> q_id row \<notin> set (map q_id (sync_queue ?db3))"
    using sync_error_cycle_ceiling[of ?row2 ?db2 r n3] s1 s2 h assms(3) by simp
  show "let failing = Inr \<lparr> processed_items = [r] \<rparr>;
                db2 = snd (sync (snd (sync db failing n1)) failing n2);
                db3 = snd (sync db2 failing n3)
            in row\<lparr> q_retry_count := 2,
                     q_error_message := Some (js_or (res_error r) ''Unknown error''),
                     q_status := ''pending'' \<rparr> \<in> set (sync_queue db2)
               \<and> q_id row \<notin> set (map d_id (dead_letter_queue db2))
               \<and> q_id row \<in> set (map d_id (dead_letter_queue db3))
               \<and> q_id row \<notin> set (map q_id (sync_queue db3))"
  proof -
    have "q_id row \<notin> set (map d_id (dead_letter_queue ?db2))"
      using s1 s2 assms(3) by simp
    with s2 s3 show ?thesis unfolding Let_def by blast
  qed
qed

theorem handleSyncError_retry_ceiling_witness:
  "(let failing = Inr \<lparr> processed_items = [example_result Error] \<rparr>;
        db1 = snd (sync example_db failing 1);
        db2 = snd (sync db1 failing 2);
        db3 = snd (sync db2 failing 3)
    in map q_retry_count (sync_queue db1) = [1]
       \<and> map (\<lambda>x. (q_id x, q_retry_count x, q_status x)) (sync_queue db2) = [(''q1'', 2, ''pending'')]
       \<and> dead_letter_queue db2 = []
       \<and> map d_id (dead_letter_queue db3) = [''q1'']
       \<and> sync_queue db3 = [])"
  using handleSyncError_retry_ceiling[of example_row example_db "JsError ''Unknown error''" "example_result Error" 1 2 3]
  by (simp add: Let_def example_db_def example_row_def example_result_def)
    (simp add: sync_def Let_def drain_def pending_rows_def processBatch_def as_item_def
      apply_result_def handleSyncError_def maxRetries_def js_or_def addToDeadLetterQueue_def)

text \<open>
  C7. Claimed: the drain returns exactly the pending entries, ordered by
  \<open>(task_id, created_at)\<close> ascending, and writes nothing. The selection and the
  read-only part hold for every database. The order does not: the query compares the
  stored values, \<open>TaskService\<close> binds \<open>created_at\<close> as a \<open>Date\<close> (a number) and
  \<open>SyncService.addToSyncQueue\<close> as \<open>toISOString()\<close> (a text), and every number
  orders before every text. After \<open>POST /\<close> at instant 1000 and \<open>PUT /t1\<close> at
  instant 2000 the drain returns the update entry \<open>q3\<close>, enqueued at 2000, before
  the create entry \<open>q2\<close>, enqueued at 1000.
\<close>

theorem drain_pending_readonly_not_chronological:
  "mset (drain db) =
     mset (map as_item (filter (\<lambda>row. q_status row = ''pending'') (sync_queue db)))
   \<and> snd (sync db (Inl e) now) = db
   \<and> snd (sync db (Inr \<lparr> processed_items = [] \<rparr>) now) = db
   \<and> map (\<lambda>i. (q_id i, q_operation i, q_created_at i)) (drain updated_db) =
       [(''q1'', Create, AsDate 1000), (''q3'', Update, AsDate 2000),
        (''q2'', Create, AsIso iso_1000), (''q4'', Update, AsIso iso_2000)]"
proof -
  have sel: "mset (drain db) =
      mset (map as_item (filter (\<lambda>row. q_status row = ''pending'') (sync_queue db)))"
    by (simp add: drain_def pending_rows_def)
  have ro1: "snd (sync db (Inl e) now) = db"
    by (simp add: sync_rejected_post)
  have ro2: "snd (sync db (Inr \<lparr> processed_items = [] \<rparr>) now) = db"
    by (simp add: sync_def processBatch_def Let_def)
  have ord: "map (\<lambda>i. (q_id i, q_operation i, q_created_at i)) (drain updated_db) =
       [(''q1'', Create, AsDate 1000), (''q3'', Update, AsDate 2000),
        (''q2'', Create, AsIso iso_1000), (''q4'', Update, AsIso iso_2000)]"
    by code_simp
  show ?thesis using sel ro1 ro2 ord by simp
qed

text \<open>
  C8. Claimed: the \<open>task_id\<close> of every reported error is the \<open>task_id\<close> of the queue
  entry that failed. Both branches of \<open>sync\<close> fill the field with the entry's own id
  (\<open>item.id\<close>, \<open>r.client_id\<close>): on a rejected POST the reported ids are the ids of
  the drained entries, and for entry \<open>q1\<close> of task \<open>t1\<close> both the rejected POST and
  an \<open>error\<close> result report \<open>q1\<close>.
\<close>

theorem sync_errors_carry_queue_id:
  "map e_task_id (errors (fst (sync db (Inl e) now))) = map q_id (drain db)
   \<and> map e_task_id (errors (fst (sync example_db checksum_rejection 2000))) = [''q1'']
   \<and> map e_task_id (errors (fst (sync example_db
         (Inr \<lparr> processed_items = [example_result Error] \<rparr>) 2000))) = [''q1'']
   \<and> map q_task_id (drain example_db) = [''t1'']"
proof -
  have "map e_task_id (errors (fst (sync db (Inl e) now))) = map q_id (drain db)"
    by (simp add: sync_rejected_post comp_def)
  moreover have "map e_task_id (errors (fst (sync example_db checksum_rejection 2000))) = [''q1'']"
    by (simp add: checksum_rejection_def sync_rejected_post drain_example_db)
      (simp add: as_item_def example_row_def)
  moreover have "map e_task_id (errors (fst (sync example_db
         (Inr \<lparr> processed_items = [example_result Error] \<rparr>) 2000))) = [''q1'']"
    by (simp add: sync_def Let_def drain_example_db processBatch_def example_result_def
        as_item_def apply_result_def handleSyncError_def maxRetries_def js_or_def
        example_row_def split: prod.splits)
  moreover have "map q_task_id (drain example_db) = [''t1'']"
    by (simp add: drain_example_db as_item_def example_row_def)
  ultimately show ?thesis by simp
qed

text \<open>
  C9. Every entry read from the dead-letter store reports \<open>retry_count = 3\<close>; an item
  inserted with any \<open>retry_count\<close> is read back with its other fields and with
  \<open>retry_count\<close> replaced by 3, because the table has no such column.
\<close>

theorem getDeadLetterQueue_retry_count_3:
  "(\<forall>e \<in> set (getDeadLetterQueue db). q_retry_count e = 3)
   \<and> (addToDeadLetterQueue db item = Inr db' \<longrightarrow>
        getDeadLetterQueue db' = getDeadLetterQueue db @ [item\<lparr> q_retry_count := 3 \<rparr>])"
  by (auto simp: getDeadLetterQueue_def addToDeadLetterQueue_def split: if_splits)

theorem getDeadLetterQueue_retry_count_3_witness:
  "map q_retry_count (getDeadLetterQueue
     (case addToDeadLetterQueue empty_database (as_item example_row\<lparr> q_retry_count := 7 \<rparr>) of
        Inr d \<Rightarrow> d | Inl e \<Rightarrow> empty_database)) = [3]"
  using getDeadLetterQueue_retry_count_3
    [of empty_database "as_item example_row\<lparr> q_retry_count := 7 \<rparr>"]
  by (simp add: addToDeadLetterQueue_def empty_database_def getDeadLetterQueue_def)

text \<open>
  C10. For a task that exists and is already soft-deleted, \<open>getTask\<close> returns null,
  yet \<open>deleteTask\<close> on the same id returns true and appends one more pending
  \<open>delete\<close> entry for it (given a fresh entry id), and the \<open>DELETE\<close> route answers 200
  rather than 404.
\<close>

theorem deleteTask_soft_deleted_succeeds:
  assumes "getTaskById db i = Some t" and "t_is_deleted t"
    and "uuid1 \<notin> set (map q_id (sync_queue db))"
    and "uuid2 \<notin> set (map q_id (sync_queue db))" and "uuid1 \<noteq> uuid2"
  shows "getTask db i = None
    \<and> fst (deleteTask db i uuid1 now) = Inr True
    \<and> sync_queue (snd (deleteTask db i uuid1 now)) = sync_queue db @
         [\<lparr> q_id = uuid1, q_task_id = i, q_operation = Delete,
            q_data = to_partial (t\<lparr> t_is_deleted := True, t_updated_at := now,
                                    t_sync_status := TaskPending \<rparr>),
            q_created_at = AsDate now, q_retry_count = 0, q_error_message = None,
            q_status = ''pending'' \<rparr>]
    \<and> fst (delete_task db i uuid1 uuid2 now iso_text) = (200, SuccessJson)"
proof -
  have id: "t_id t = i" using assms(1) by (simp add: getTaskById_Some)
  have g: "getTask db i = None" using assms(1,2) by (simp add: getTask_def)
  have d: "deleteTask db i uuid1 now = (Inr True,
      db\<lparr> tasks := map (\<lambda>row. if t_id row = i
               then t\<lparr> t_is_deleted := True, t_updated_at := now, t_sync_status := TaskPending,
                       t_created_at := t_created_at row \<rparr> else row) (tasks db),
          sync_queue := sync_queue db @
         [\<lparr> q_id = uuid1, q_task_id = i, q_operation = Delete,
            q_data = to_partial (t\<lparr> t_is_deleted := True, t_updated_at := now,
                                    t_sync_status := TaskPending \<rparr>),
            q_created_at = AsDate now, q_retry_count = 0, q_error_message = None,
            q_status = ''pending'' \<rparr>] \<rparr>)"
    using assms(1,3) id
    by (simp add: deleteTask_def Let_def db_updateTask_to_partial db_addToSyncQueue_def
        insert_queue_row_def)
  have r: "fst (delete_task db i uuid1 uuid2 now iso_text) = (200, SuccessJson)"
    using assms(4,5) by (simp add: delete_task_def d addToSyncQueue_def insert_queue_row_def)
  show ?thesis using g d r by simp
qed

theorem deleteTask_soft_deleted_succeeds_witness:
  "getTask deleted_db ''t1'' = None
   \<and> fst (deleteTask deleted_db ''t1'' ''q8'' 5000) = Inr True
   \<and> map q_operation (sync_queue (snd (deleteTask deleted_db ''t1'' ''q8'' 5000))) = [Delete]
   \<and> fst (delete_task deleted_db ''t1'' ''q8'' ''q9'' 5000 iso_5000) = (200, SuccessJson)"
  using deleteTask_soft_deleted_succeeds
    [of deleted_db "''t1''" "example_task\<lparr> t_is_deleted := True \<rparr>" "''q8''" "''q9''" 5000 iso_5000]
  by (simp add: deleted_db_def example_task_def getTaskById_def)

end
